theory Spec2Isabelle
  imports Main "HOL-Library.Word" "HOL-Library.Sublist"
begin

section \<open>Strings and the host environment\<close>

text \<open>
  A JavaScript string is a sequence of 16-bit code units; \<open>slice\<close>, \<open>length\<close> and
  \<open>===\<close> all work on code units. \<open>js\<close> turns an ASCII literal into such a sequence.
\<close>

type_synonym jsstring = "16 word list"

definition js :: "string \<Rightarrow> jsstring" where
  "js s = map (\<lambda>c. of_nat (of_char c)) s"

text \<open>
  What \<open>App.tsx\<close> takes from the browser and leaves to it.
  \<^item> The time zone, as ECMA-262 5.1 (15.9.1.7 to 15.9.1.9) has it: a constant adjustment
    \<open>LocalTZA\<close> that takes UTC to local standard time, in milliseconds, and the instants
    at which daylight saving time is in effect, when the local clock is one hour ahead.
    Later editions leave the whole offset to the host; the two descriptions agree on a
    zone without daylight saving time, and otherwise away from the local times that a
    change of the clock skips or repeats.
  \<^item> The result of \<open>Date.parse\<close> on a string that is not in the format \<open>toISOString\<close>
    writes. ECMA-262 fixes it for the shorter forms of that format and leaves the rest to
    the implementation; here all of it is the host's.
  \<^item> The locale's rendering of the date of a time value, Unicode lower-casing, and
    whether \<open>localStorage.setItem\<close> accepts a value or throws for lack of quota.
\<close>

record host =
  LocalTZA :: int
  inDaylightTime :: "int \<Rightarrow> bool"
  parseOther :: "jsstring \<Rightarrow> int option"
  toLocaleDateString :: "int \<Rightarrow> jsstring"
  toLowerCase :: "jsstring \<Rightarrow> jsstring"
  storageAccepts :: "jsstring \<Rightarrow> jsstring \<Rightarrow> bool"

datatype error = RangeError | TypeError | QuotaExceededError

text \<open>
  A property read gives \<open>undefined\<close> or a value. \<open>Partial<Task>\<close> lets a patch set
  any field of a task to \<open>undefined\<close>, so the fields of a stored task are of this type.
\<close>

datatype 'a optional = Undefined | Defined 'a

section \<open>Dates (ECMA-262, Date objects)\<close>

text \<open>
  A time value is a number of milliseconds since the epoch, or NaN: \<open>int option\<close>
  with \<open>None\<close> for NaN. Every finite time value is an integer of magnitude at most
  \<open>8.64e15\<close>, which a double represents exactly, so integers lose nothing.
\<close>

type_synonym Date = "int option"

definition msPerDay :: int where "msPerDay = 86400000"
definition msPerHour :: int where "msPerHour = 3600000"
definition msPerMinute :: int where "msPerMinute = 60000"
definition msPerSecond :: int where "msPerSecond = 1000"

definition Day :: "int \<Rightarrow> int" where
  "Day t = t div msPerDay"

definition TimeWithinDay :: "int \<Rightarrow> int" where
  "TimeWithinDay t = t mod msPerDay"

definition DaysInYear :: "int \<Rightarrow> int" where
  "DaysInYear y =
     (if y mod 4 \<noteq> 0 then 365 else if y mod 100 \<noteq> 0 then 366
      else if y mod 400 \<noteq> 0 then 365 else 366)"

definition DayFromYear :: "int \<Rightarrow> int" where
  "DayFromYear y =
     365 * (y - 1970) + (y - 1969) div 4 - (y - 1901) div 100 + (y - 1601) div 400"

text \<open>
  ECMA-262 defines \<open>YearFromTime(t)\<close> as the largest \<open>y\<close> whose first day is not after
  \<open>t\<close>. The computation below estimates the year from the mean length of a year
  (146097 days in 400 years) and corrects the estimate by at most one;
  \<open>YearFromTime_bounds\<close> and \<open>YearFromTime_unique\<close> show that it is that \<open>y\<close>.
\<close>

definition YearFromTime :: "int \<Rightarrow> int" where
  "YearFromTime t =
     (let d = Day t; y0 = 1970 + (400 * d) div 146097
      in if d < DayFromYear y0 then y0 - 1
         else if DayFromYear (y0 + 1) \<le> d then y0 + 1 else y0)"

definition InLeapYear :: "int \<Rightarrow> int" where
  "InLeapYear t = (if DaysInYear (YearFromTime t) = 365 then 0 else 1)"

definition DayWithinYear :: "int \<Rightarrow> int" where
  "DayWithinYear t = Day t - DayFromYear (YearFromTime t)"

definition MonthFromTime :: "int \<Rightarrow> int" where
  "MonthFromTime t =
     (let d = DayWithinYear t; l = InLeapYear t
      in if d < 31 then 0 else if d < 59 + l then 1 else if d < 90 + l then 2
         else if d < 120 + l then 3 else if d < 151 + l then 4 else if d < 181 + l then 5
         else if d < 212 + l then 6 else if d < 243 + l then 7 else if d < 273 + l then 8
         else if d < 304 + l then 9 else if d < 334 + l then 10 else 11)"

definition DateFromTime :: "int \<Rightarrow> int" where
  "DateFromTime t =
     (let d = DayWithinYear t; l = InLeapYear t; m = MonthFromTime t
      in if m = 0 then d + 1 else if m = 1 then d - 30 else if m = 2 then d - 58 - l
         else if m = 3 then d - 89 - l else if m = 4 then d - 119 - l
         else if m = 5 then d - 150 - l else if m = 6 then d - 180 - l
         else if m = 7 then d - 211 - l else if m = 8 then d - 242 - l
         else if m = 9 then d - 272 - l else if m = 10 then d - 303 - l else d - 333 - l)"

definition HourFromTime :: "int \<Rightarrow> int" where
  "HourFromTime t = (t div msPerHour) mod 24"

definition MinFromTime :: "int \<Rightarrow> int" where
  "MinFromTime t = (t div msPerMinute) mod 60"

definition SecFromTime :: "int \<Rightarrow> int" where
  "SecFromTime t = (t div msPerSecond) mod 60"

definition msFromTime :: "int \<Rightarrow> int" where
  "msFromTime t = t mod msPerSecond"

definition DaylightSavingTA :: "host \<Rightarrow> int \<Rightarrow> int" where
  "DaylightSavingTA h t = (if inDaylightTime h t then msPerHour else 0)"

definition LocalTime :: "host \<Rightarrow> int \<Rightarrow> int" where
  "LocalTime h t = t + LocalTZA h + DaylightSavingTA h t"

definition UTC :: "host \<Rightarrow> int \<Rightarrow> int" where
  "UTC h t = t - LocalTZA h - DaylightSavingTA h (t - LocalTZA h)"

definition MakeTime :: "int \<Rightarrow> int \<Rightarrow> int \<Rightarrow> int \<Rightarrow> int" where
  "MakeTime hour minute sec ms =
     hour * msPerHour + minute * msPerMinute + sec * msPerSecond + ms"

text \<open>
  The number of days of year \<open>y\<close> before its month \<open>mn\<close> (0 to 11). \<open>MakeDay\<close> is
  defined in ECMA-262 through a time value \<open>t\<close> with \<open>YearFromTime(t) = ym\<close>,
  \<open>MonthFromTime(t) = mn\<close> and \<open>DateFromTime(t) = 1\<close>; \<open>MakeDay_fields\<close> shows that
  the day computed here is the day of that time value.
\<close>

definition DaysBeforeMonth :: "int \<Rightarrow> int \<Rightarrow> int" where
  "DaysBeforeMonth y mn =
     (let l = (if DaysInYear y = 365 then 0 else 1)
      in if mn = 0 then 0 else if mn = 1 then 31 else if mn = 2 then 59 + l
         else if mn = 3 then 90 + l else if mn = 4 then 120 + l else if mn = 5 then 151 + l
         else if mn = 6 then 181 + l else if mn = 7 then 212 + l else if mn = 8 then 243 + l
         else if mn = 9 then 273 + l else if mn = 10 then 304 + l else 334 + l)"

definition DaysInMonth :: "int \<Rightarrow> int \<Rightarrow> int" where
  "DaysInMonth y mn =
     (if mn = 1 then (if DaysInYear y = 365 then 28 else 29)
      else if mn = 3 \<or> mn = 5 \<or> mn = 8 \<or> mn = 10 then 30 else 31)"

definition MakeDay :: "int \<Rightarrow> int \<Rightarrow> int \<Rightarrow> int" where
  "MakeDay year month date =
     (let ym = year + month div 12; mn = month mod 12
      in DayFromYear ym + DaysBeforeMonth ym mn + date - 1)"

definition MakeDate :: "int \<Rightarrow> int \<Rightarrow> int" where
  "MakeDate day time = day * msPerDay + time"

definition TimeClip :: "int \<Rightarrow> Date" where
  "TimeClip t = (if \<bar>t\<bar> > 8640000000000000 then None else Some t)"

text \<open>\<open>d.getDate()\<close>, \<open>d.getMonth()\<close>: NaN for an invalid date.\<close>

definition getDate :: "host \<Rightarrow> Date \<Rightarrow> int option" where
  "getDate h d = map_option (\<lambda>t. DateFromTime (LocalTime h t)) d"

definition getMonth :: "host \<Rightarrow> Date \<Rightarrow> int option" where
  "getMonth h d = map_option (\<lambda>t. MonthFromTime (LocalTime h t)) d"

text \<open>
  \<open>d.setDate(dt)\<close>, \<open>d.setMonth(m)\<close> and \<open>d.setHours(h, m, s, ms)\<close> return the new
  time value of \<open>d\<close>. The argument is NaN when it was computed from an invalid date.
\<close>

definition setDate :: "host \<Rightarrow> Date \<Rightarrow> int option \<Rightarrow> Date" where
  "setDate h d dt =
     (case d of None \<Rightarrow> None
      | Some t \<Rightarrow>
         (case dt of None \<Rightarrow> None
          | Some n \<Rightarrow>
             (let lt = LocalTime h t;
                  newDate = MakeDate (MakeDay (YearFromTime lt) (MonthFromTime lt) n)
                                     (TimeWithinDay lt)
              in TimeClip (UTC h newDate))))"

definition setMonth :: "host \<Rightarrow> Date \<Rightarrow> int option \<Rightarrow> Date" where
  "setMonth h d mo =
     (case d of None \<Rightarrow> None
      | Some t \<Rightarrow>
         (case mo of None \<Rightarrow> None
          | Some m \<Rightarrow>
             (let lt = LocalTime h t;
                  newDate = MakeDate (MakeDay (YearFromTime lt) m (DateFromTime lt))
                                     (TimeWithinDay lt)
              in TimeClip (UTC h newDate))))"

definition setHours :: "host \<Rightarrow> Date \<Rightarrow> int \<Rightarrow> int \<Rightarrow> int \<Rightarrow> int \<Rightarrow> Date" where
  "setHours h d hour minute sec ms =
     (case d of None \<Rightarrow> None
      | Some t \<Rightarrow>
         (let lt = LocalTime h t
          in TimeClip (UTC h (MakeDate (Day lt) (MakeTime hour minute sec ms)))))"

subsection \<open>The ISO format\<close>

definition digit :: "nat \<Rightarrow> 16 word" where
  "digit n = of_nat (48 + n mod 10)"

definition pad2 :: "nat \<Rightarrow> jsstring" where
  "pad2 n = [digit (n div 10), digit n]"

definition pad3 :: "nat \<Rightarrow> jsstring" where
  "pad3 n = [digit (n div 100), digit (n div 10), digit n]"

definition pad4 :: "nat \<Rightarrow> jsstring" where
  "pad4 n = [digit (n div 1000), digit (n div 100), digit (n div 10), digit n]"

definition pad6 :: "nat \<Rightarrow> jsstring" where
  "pad6 n = [digit (n div 100000), digit (n div 10000), digit (n div 1000),
             digit (n div 100), digit (n div 10), digit n]"

text \<open>
  The year of \<open>toISOString\<close>: four digits from 0 to 9999, otherwise a sign and six
  digits.
\<close>

definition isoYear :: "int \<Rightarrow> jsstring" where
  "isoYear y =
     (if 0 \<le> y \<and> y \<le> 9999 then pad4 (nat y)
      else (if y < 0 then js ''-'' else js ''+'') @ pad6 (nat \<bar>y\<bar>))"

definition ISOString :: "int \<Rightarrow> jsstring" where
  "ISOString t =
     isoYear (YearFromTime t) @ js ''-'' @ pad2 (nat (MonthFromTime t + 1)) @ js ''-''
       @ pad2 (nat (DateFromTime t)) @ js ''T'' @ pad2 (nat (HourFromTime t)) @ js '':''
       @ pad2 (nat (MinFromTime t)) @ js '':'' @ pad2 (nat (SecFromTime t)) @ js ''.''
       @ pad3 (nat (msFromTime t)) @ js ''Z''"

text \<open>\<open>d.toISOString()\<close> throws a RangeError on an invalid date.\<close>

definition toISOString :: "Date \<Rightarrow> error + jsstring" where
  "toISOString d = (case d of None \<Rightarrow> Inl RangeError | Some t \<Rightarrow> Inr (ISOString t))"

text \<open>
  \<open>Date.parse\<close>. ECMA-262 fixes the result on the strings \<open>toISOString\<close> produces: the
  time value that was formatted. \<open>numeral10\<close> reads a run of decimal digits and
  \<open>canonicalTime\<close> reads the fields at their fixed positions; the final comparison
  with \<open>ISOString\<close> rejects every string that is not such an output. On all other
  strings the result is the host's.
\<close>

definition numeral10 :: "jsstring \<Rightarrow> int" where
  "numeral10 s = foldl (\<lambda>a c. 10 * a + (int (unat c) - 48)) 0 s"

definition slice :: "jsstring \<Rightarrow> nat \<Rightarrow> nat \<Rightarrow> jsstring" where
  "slice s i j = take (j - i) (drop i s)"

definition canonicalTime :: "jsstring \<Rightarrow> int option" where
  "canonicalTime s =
     (let k = (if length s = 27 then 3 else 0);
          y = (if length s = 27
               then (if take 1 s = js ''-'' then - numeral10 (slice s 1 7)
                     else numeral10 (slice s 1 7))
               else numeral10 (slice s 0 4));
          t = MakeDate (MakeDay y (numeral10 (slice s (k + 5) (k + 7)) - 1)
                                  (numeral10 (slice s (k + 8) (k + 10))))
                       (MakeTime (numeral10 (slice s (k + 11) (k + 13)))
                                 (numeral10 (slice s (k + 14) (k + 16)))
                                 (numeral10 (slice s (k + 17) (k + 19)))
                                 (numeral10 (slice s (k + 20) (k + 23))))
      in if \<bar>t\<bar> \<le> 8640000000000000 \<and> ISOString t = s then Some t else None)"

definition Date_parse :: "host \<Rightarrow> jsstring \<Rightarrow> int option" where
  "Date_parse h s = (case canonicalTime s of Some t \<Rightarrow> Some t | None \<Rightarrow> parseOther h s)"

text \<open>\<open>new Date(s)\<close> for a string \<open>s\<close>.\<close>

definition Date_new :: "host \<Rightarrow> jsstring \<Rightarrow> Date" where
  "Date_new h s = (case Date_parse h s of None \<Rightarrow> None | Some t \<Rightarrow> TimeClip t)"

section \<open>Data model (\<open>App.tsx\<close>, lines 29 to 59)\<close>

definition STORAGE_KEY :: jsstring where
  "STORAGE_KEY = js ''task_app_v1''"

datatype Recurrence = none | daily | weekly | monthly

text \<open>
  A task as \<open>tasks\<close> holds it. \<open>addTask\<close> gives every field a value; \<open>editTask\<close> may
  replace any of them by \<open>undefined\<close>. \<open>due\<close> and \<open>nextDue\<close> may also be \<open>null\<close>.
\<close>

record Task =
  t_id :: "jsstring optional"
  title :: "jsstring optional"
  t_notes :: "jsstring optional"
  createdAt :: "jsstring optional"
  due :: "jsstring option optional"
  recurrence :: "Recurrence optional"
  completed :: "bool optional"
  nextDue :: "jsstring option optional"
  archived :: "bool optional"

text \<open>
  A history entry is only ever built by \<open>completeNow\<close>: its own id, the id that was
  looked up, the title the task had (which may be \<open>undefined\<close>) and the time.
\<close>

record HistoryItem =
  h_id :: jsstring
  taskId :: jsstring
  h_title :: "jsstring optional"
  at :: jsstring

record Settings =
  timezone :: jsstring

record AppState =
  tasks :: "Task list"
  history :: "HistoryItem list"
  settings :: Settings

text \<open>
  \<open>Partial<Task>\<close>: each key is absent (\<open>None\<close>) or present, and a present key holds
  \<open>undefined\<close> or a value of the field's type.
\<close>

record TaskPatch =
  p_id :: "jsstring optional option"
  p_title :: "jsstring optional option"
  p_notes :: "jsstring optional option"
  p_createdAt :: "jsstring optional option"
  p_due :: "jsstring option optional option"
  p_recurrence :: "Recurrence optional option"
  p_completed :: "bool optional option"
  p_nextDue :: "jsstring option optional option"
  p_archived :: "bool optional option"

definition noPatch :: TaskPatch where
  "noPatch = \<lparr>p_id = None, p_title = None, p_notes = None, p_createdAt = None, p_due = None,
              p_recurrence = None, p_completed = None, p_nextDue = None, p_archived = None\<rparr>"

text \<open>
  \<open>{ ...t, ...patch }\<close>: a key of the patch replaces the task's field by what it holds,
  \<open>undefined\<close> included.
\<close>

definition spread :: "Task \<Rightarrow> TaskPatch \<Rightarrow> Task" where
  "spread t p =
     \<lparr>t_id = (case p_id p of None \<Rightarrow> t_id t | Some v \<Rightarrow> v),
      title = (case p_title p of None \<Rightarrow> title t | Some v \<Rightarrow> v),
      t_notes = (case p_notes p of None \<Rightarrow> t_notes t | Some v \<Rightarrow> v),
      createdAt = (case p_createdAt p of None \<Rightarrow> createdAt t | Some v \<Rightarrow> v),
      due = (case p_due p of None \<Rightarrow> due t | Some v \<Rightarrow> v),
      recurrence = (case p_recurrence p of None \<Rightarrow> recurrence t | Some v \<Rightarrow> v),
      completed = (case p_completed p of None \<Rightarrow> completed t | Some v \<Rightarrow> v),
      nextDue = (case p_nextDue p of None \<Rightarrow> nextDue t | Some v \<Rightarrow> v),
      archived = (case p_archived p of None \<Rightarrow> archived t | Some v \<Rightarrow> v)\<rparr>"

section \<open>Recurrence and the mutations (\<open>App.tsx\<close>, lines 61 to 167)\<close>

text \<open>
  \<open>nowISO()\<close> formats the reading of the clock, which is always a valid time value.
  The clock reading and the result of \<open>uuidv4()\<close> are arguments of the operations that
  use them.
\<close>

definition nowISO :: "int \<Rightarrow> jsstring" where
  "nowISO clock = ISOString clock"

definition plusInterval :: "host \<Rightarrow> jsstring \<Rightarrow> Recurrence \<Rightarrow> error + jsstring" where
  "plusInterval h dateISO r =
     (let d = Date_new h dateISO;
          d' = (if r = daily then setDate h d (map_option (\<lambda>n. n + 1) (getDate h d))
                else if r = weekly then setDate h d (map_option (\<lambda>n. n + 7) (getDate h d))
                else if r = monthly then setMonth h d (map_option (\<lambda>n. n + 1) (getMonth h d))
                else d)
      in toISOString d')"



text \<open>
  \<open>a || b\<close>: the empty string, \<open>null\<close> and \<open>undefined\<close> are falsy. \<open>orString\<close> and
  \<open>orNull\<close> serve the arguments of \<open>addTask\<close>, \<open>orElse\<close> serves \<open>t.nextDue || timestamp\<close>.
  In \<open>recurrence || "none"\<close> the left side is one of four non-empty strings, so it is
  the result.
\<close>

definition orString :: "jsstring \<Rightarrow> jsstring \<Rightarrow> jsstring" where
  "orString a b = (if a = [] then b else a)"

definition orNull :: "jsstring option \<Rightarrow> jsstring option" where
  "orNull a = (case a of None \<Rightarrow> None | Some v \<Rightarrow> if v = [] then None else Some v)"

definition orElse :: "jsstring option optional \<Rightarrow> jsstring \<Rightarrow> jsstring" where
  "orElse a b = (case a of Defined (Some v) \<Rightarrow> if v = [] then b else v | _ \<Rightarrow> b)"


text \<open>A boolean field in a condition: \<open>undefined\<close> is falsy.\<close>

definition truthy :: "bool optional \<Rightarrow> bool" where
  "truthy b = (b = Defined True)"

text \<open>
  \<open>t.recurrence && t.recurrence !== "none"\<close>: the rule to apply, if there is one.
\<close>

definition recurringRule :: "Task \<Rightarrow> Recurrence option" where
  "recurringRule t =
     (case recurrence t of
        Undefined \<Rightarrow> None
      | Defined r \<Rightarrow> if r \<noteq> none then Some r else None)"

definition addTask ::
  "jsstring \<Rightarrow> int \<Rightarrow> jsstring \<Rightarrow> jsstring \<Rightarrow> jsstring option \<Rightarrow> Recurrence \<Rightarrow> AppState \<Rightarrow> AppState"
where
  "addTask uuid clock ttl nts du rec s =
     (let task = \<lparr>t_id = Defined uuid, title = Defined (orString ttl (js ''Untitled'')),
                  t_notes = Defined (orString nts []), createdAt = Defined (nowISO clock),
                  due = Defined (orNull du), recurrence = Defined rec,
                  completed = Defined False, nextDue = Defined (orNull du),
                  archived = Defined False\<rparr>
      in s\<lparr>tasks := task # tasks s\<rparr>)"

definition editTask :: "jsstring \<Rightarrow> TaskPatch \<Rightarrow> AppState \<Rightarrow> AppState" where
  "editTask i patch s =
     s\<lparr>tasks := map (\<lambda>t. if t_id t = Defined i then spread t patch else t) (tasks s)\<rparr>"

definition toggleComplete :: "jsstring \<Rightarrow> AppState \<Rightarrow> AppState" where
  "toggleComplete i s =
     s\<lparr>tasks := map (\<lambda>t. if t_id t = Defined i
                           then t\<lparr>completed := Defined (\<not> truthy (completed t))\<rparr> else t)
                     (tasks s)\<rparr>"

text \<open>
  \<open>completeNow\<close> is the one mutation that can throw: \<open>plusInterval\<close> ends in
  \<open>toISOString\<close>. The exception leaves the updater, so no new state is produced.
  \<open>taskId: t.id\<close> is the id that was looked up, since \<open>find\<close> tested \<open>t.id === id\<close>.
\<close>

definition completeNow :: "host \<Rightarrow> jsstring \<Rightarrow> int \<Rightarrow> jsstring \<Rightarrow> AppState \<Rightarrow> error + AppState" where
  "completeNow h uuid clock i s =
     (case find (\<lambda>x. t_id x = Defined i) (tasks s) of
        None \<Rightarrow> Inr s
      | Some t \<Rightarrow>
         (let timestamp = nowISO clock;
              historyItem = \<lparr>h_id = uuid, taskId = i, h_title = title t, at = timestamp\<rparr>;
              tasks1 = map (\<lambda>x. if t_id x = Defined i then x\<lparr>completed := Defined True\<rparr> else x)
                           (tasks s)
          in case recurringRule t of
               Some r \<Rightarrow>
                 (case plusInterval h (orElse (nextDue t) timestamp) r of
                    Inl e \<Rightarrow> Inl e
                  | Inr next \<Rightarrow>
                      Inr (s\<lparr>tasks := map (\<lambda>x. if t_id x = Defined i
                                                 then x\<lparr>nextDue := Defined (Some next),
                                                        completed := Defined False\<rparr>
                                                 else x) tasks1,
                             history := historyItem # history s\<rparr>))
             | None \<Rightarrow> Inr (s\<lparr>tasks := tasks1, history := historyItem # history s\<rparr>)))"


definition deleteTask :: "jsstring \<Rightarrow> AppState \<Rightarrow> AppState" where
  "deleteTask i s = s\<lparr>tasks := filter (\<lambda>t. t_id t \<noteq> Defined i) (tasks s)\<rparr>"

definition archiveTask :: "jsstring \<Rightarrow> AppState \<Rightarrow> AppState" where
  "archiveTask i s = editTask i (noPatch\<lparr>p_archived := Some (Defined True)\<rparr>) s"

text \<open>
  The six mutations as one type, with the arguments each takes, so that a statement
  can range over all of them.
\<close>

datatype Mutation =
    AddTask jsstring int jsstring jsstring "jsstring option" Recurrence
  | EditTask jsstring TaskPatch
  | ToggleComplete jsstring
  | CompleteNow jsstring int jsstring
  | DeleteTask jsstring
  | ArchiveTask jsstring

fun mutate :: "host \<Rightarrow> Mutation \<Rightarrow> AppState \<Rightarrow> error + AppState" where
  "mutate h (AddTask uuid clock ttl nts du rec) s = Inr (addTask uuid clock ttl nts du rec s)"
| "mutate h (EditTask i patch) s = Inr (editTask i patch s)"
| "mutate h (ToggleComplete i) s = Inr (toggleComplete i s)"
| "mutate h (CompleteNow uuid clock i) s = completeNow h uuid clock i s"
| "mutate h (DeleteTask i) s = Inr (deleteTask i s)"
| "mutate h (ArchiveTask i) s = Inr (archiveTask i s)"

text \<open>The state of a first run (lines 92 to 96), for the zone name the browser reports.\<close>

definition freshState :: "jsstring \<Rightarrow> AppState" where
  "freshState tz = \<lparr>tasks = [], history = [], settings = \<lparr>timezone = tz\<rparr>\<rparr>"

inductive reachable :: "host \<Rightarrow> AppState \<Rightarrow> bool" for h :: host where
  fresh: "reachable h (freshState tz)"
| step: "reachable h s \<Longrightarrow> mutate h m s = Inr s' \<Longrightarrow> reachable h s'"

section \<open>Analytics (\<open>App.tsx\<close>, lines 170 to 202)\<close>

text \<open>
  \<open>lastNDays(n)\<close>: for \<open>i\<close> from \<open>n - 1\<close> down to 0, local midnight of today moved back
  by \<open>i\<close> days. Every \<open>new Date()\<close> of the loop reads the same clock value here.
\<close>

definition lastNDays :: "host \<Rightarrow> int \<Rightarrow> nat \<Rightarrow> Date list" where
  "lastNDays h clock n =
     map (\<lambda>i. let d = setHours h (Some clock) 0 0 0 0
               in setDate h d (map_option (\<lambda>k. k - int i) (getDate h d)))
         (rev [0..<n])"

record Bucket =
  date :: jsstring
  label :: jsstring
  count :: nat

definition Date_toLocaleDateString :: "host \<Rightarrow> Date \<Rightarrow> jsstring" where
  "Date_toLocaleDateString h d =
     (case d of None \<Rightarrow> js ''Invalid Date'' | Some t \<Rightarrow> toLocaleDateString h t)"

text \<open>\<open>days.map(...)\<close>: the first invalid date makes \<open>toISOString\<close> throw.\<close>

fun emptyBuckets :: "host \<Rightarrow> Date list \<Rightarrow> error + Bucket list" where
  "emptyBuckets h [] = Inr []"
| "emptyBuckets h (d # ds) =
     (case toISOString d of
        Inl e \<Rightarrow> Inl e
      | Inr txt \<Rightarrow>
         (case emptyBuckets h ds of
            Inl e \<Rightarrow> Inl e
          | Inr bs \<Rightarrow>
             Inr (\<lparr>date = slice txt 0 10, label = Date_toLocaleDateString h d, count = 0\<rparr> # bs)))"

text \<open>\<open>findIndex\<close> returns the first index that satisfies the test, \<open>None\<close> for \<open>-1\<close>.\<close>

fun findIndex :: "('a \<Rightarrow> bool) \<Rightarrow> 'a list \<Rightarrow> nat option" where
  "findIndex P [] = None"
| "findIndex P (x # xs) =
     (if P x then Some 0 else map_option Suc (findIndex P xs))"

text \<open>The body of the loop over the history (lines 189 to 191).\<close>

definition countEntry :: "Bucket list \<Rightarrow> HistoryItem \<Rightarrow> Bucket list" where
  "countEntry m hi =
     (let key = slice (at hi) 0 10
      in case findIndex (\<lambda>b. date b = key) m of
           None \<Rightarrow> m
         | Some idx \<Rightarrow> m[idx := (m ! idx)\<lparr>count := count (m ! idx) + 1\<rparr>])"

definition completedByDay :: "host \<Rightarrow> int \<Rightarrow> HistoryItem list \<Rightarrow> error + Bucket list" where
  "completedByDay h clock hist =
     (case emptyBuckets h (lastNDays h clock 14) of
        Inl e \<Rightarrow> Inl e
      | Inr m \<Rightarrow> Inr (foldl countEntry m hist))"

text \<open>
  \<open>counts\<close> (line 197) is an object literal used as a dictionary. Its own properties
  are the map below; a key it does not own is looked up in \<open>Object.prototype\<close>, where
  the names of \<open>ObjectPrototypeKeys\<close> are bound to functions (\<open>__proto__\<close> to the
  prototype itself). A value is a number or something else: such a function or
  object, or the string that adding 1 to it gives.
\<close>

datatype countValue = Number nat | NotNumber

definition ObjectPrototypeKeys :: "jsstring list" where
  "ObjectPrototypeKeys =
     map js [''constructor'', ''hasOwnProperty'', ''isPrototypeOf'', ''propertyIsEnumerable'',
             ''toLocaleString'', ''toString'', ''valueOf'', ''__proto__'', ''__defineGetter__'',
             ''__defineSetter__'', ''__lookupGetter__'', ''__lookupSetter__'']"

text \<open>\<open>counts[k]\<close>, with \<open>None\<close> for \<open>undefined\<close>.\<close>

definition getProp :: "(jsstring \<rightharpoonup> countValue) \<Rightarrow> jsstring \<Rightarrow> countValue option" where
  "getProp obj k =
     (case obj k of
        Some v \<Rightarrow> Some v
      | None \<Rightarrow> if k \<in> set ObjectPrototypeKeys then Some NotNumber else None)"

text \<open>
  \<open>counts[k] = v\<close>: an own property is created or updated, except that the setter of
  \<open>__proto__\<close> ignores a value that is neither an object nor \<open>null\<close>.
\<close>

definition setProp :: "(jsstring \<rightharpoonup> countValue) \<Rightarrow> jsstring \<Rightarrow> countValue \<Rightarrow> (jsstring \<rightharpoonup> countValue)" where
  "setProp obj k v = (if k = js ''__proto__'' then obj else obj(k \<mapsto> v))"

text \<open>\<open>(x || 0) + 1\<close> and \<open>x || 0\<close>.\<close>

definition orZeroPlusOne :: "countValue option \<Rightarrow> countValue" where
  "orZeroPlusOne x =
     (case x of None \<Rightarrow> Number 1 | Some (Number n) \<Rightarrow> Number (n + 1) | Some NotNumber \<Rightarrow> NotNumber)"

definition orZero :: "countValue option \<Rightarrow> countValue" where
  "orZero x = (case x of None \<Rightarrow> Number 0 | Some v \<Rightarrow> v)"

definition tally :: "(jsstring \<rightharpoonup> countValue) \<Rightarrow> HistoryItem \<Rightarrow> (jsstring \<rightharpoonup> countValue)" where
  "tally counts hi = setProp counts (taskId hi) (orZeroPlusOne (getProp counts (taskId hi)))"

text \<open>\<open>counts[t.id]\<close> turns \<open>undefined\<close> into the key \<open>"undefined"\<close>.\<close>

definition propertyKey :: "jsstring optional \<Rightarrow> jsstring" where
  "propertyKey k = (case k of Undefined \<Rightarrow> js ''undefined'' | Defined s \<Rightarrow> s)"

record TaskCount =
  c_title :: "jsstring optional"
  c_id :: "jsstring optional"
  c_count :: countValue

definition completionsPerTask :: "HistoryItem list \<Rightarrow> Task list \<Rightarrow> TaskCount list" where
  "completionsPerTask hist ts =
     (let counts = foldl tally Map.empty hist
      in map (\<lambda>t. \<lparr>c_title = title t, c_id = t_id t,
                    c_count = orZero (getProp counts (propertyKey (t_id t)))\<rparr>) ts)"

section \<open>Search and filter (\<open>App.tsx\<close>, lines 205 to 215)\<close>

text \<open>\<open>s.includes(q)\<close>: \<open>q\<close> occurs in \<open>s\<close> as a contiguous run of code units.\<close>

fun includes_js :: "jsstring \<Rightarrow> jsstring \<Rightarrow> bool" where
  "includes_js [] q = (q = [])"
| "includes_js (c # s) q = (prefix q (c # s) \<or> includes_js s q)"




section \<open>Persistence (\<open>App.tsx\<close>, lines 73 to 86)\<close>

subsection \<open>JSON values\<close>

text \<open>
  The values that reach \<open>JSON.stringify\<close> or come out of \<open>JSON.parse\<close>. \<open>JUndefined\<close>
  is what a property holds that was set to \<open>undefined\<close>; \<open>JSON.parse\<close> never builds it.
  An object lists its properties in creation order. A number is kept as the literal
  that denotes it; its double is not computed, and no field of the state is a number.
\<close>

datatype json =
    JUndefined
  | JNull
  | JBool bool
  | JNumber jsstring
  | JString jsstring
  | JArray "json list"
  | JObject "(jsstring \<times> json) list"

subsection \<open>\<open>JSON.stringify\<close>\<close>

definition hexDigit :: "nat \<Rightarrow> 16 word" where
  "hexDigit n = (if n mod 16 < 10 then of_nat (48 + n mod 16) else of_nat (87 + n mod 16))"

text \<open>\<open>UnicodeEscape\<close>: \<open>\u\<close> and four lower-case hexadecimal digits.\<close>

definition UnicodeEscape :: "16 word \<Rightarrow> jsstring" where
  "UnicodeEscape c =
     [0x5C, 0x75, hexDigit (unat c div 4096), hexDigit (unat c div 256),
      hexDigit (unat c div 16), hexDigit (unat c)]"

definition isLeadingSurrogate :: "16 word \<Rightarrow> bool" where
  "isLeadingSurrogate c = (0xD800 \<le> c \<and> c \<le> 0xDBFF)"

definition isTrailingSurrogate :: "16 word \<Rightarrow> bool" where
  "isTrailingSurrogate c = (0xDC00 \<le> c \<and> c \<le> 0xDFFF)"

text \<open>A code unit that is not a surrogate: the two-character escapes first.\<close>

definition quoteUnit :: "16 word \<Rightarrow> jsstring" where
  "quoteUnit c =
     (if c = 0x08 then [0x5C, 0x62] else if c = 0x09 then [0x5C, 0x74]
      else if c = 0x0A then [0x5C, 0x6E] else if c = 0x0C then [0x5C, 0x66]
      else if c = 0x0D then [0x5C, 0x72] else if c = 0x22 then [0x5C, 0x22]
      else if c = 0x5C then [0x5C, 0x5C]
      else if c < 0x20 then UnicodeEscape c else [c])"

text \<open>
  \<open>QuoteJSONString\<close> walks the code points of the string: a leading surrogate followed
  by a trailing one is a single code point and is copied; any other surrogate is
  escaped.
\<close>

fun quoteUnits :: "jsstring \<Rightarrow> jsstring" where
  "quoteUnits [] = []"
| "quoteUnits [c] =
     (if isLeadingSurrogate c \<or> isTrailingSurrogate c then UnicodeEscape c else quoteUnit c)"
| "quoteUnits (c # d # cs) =
     (if isLeadingSurrogate c
      then (if isTrailingSurrogate d then c # d # quoteUnits cs
            else UnicodeEscape c @ quoteUnits (d # cs))
      else if isTrailingSurrogate c then UnicodeEscape c @ quoteUnits (d # cs)
      else quoteUnit c @ quoteUnits (d # cs))"

definition QuoteJSONString :: "jsstring \<Rightarrow> jsstring" where
  "QuoteJSONString s = 0x22 # quoteUnits s @ [0x22]"

text \<open>
  \<open>SerializeJSONProperty\<close> without indentation. \<open>stringify v\<close> is the text of \<open>v\<close> as
  an element of an array, where \<open>undefined\<close> is written \<open>null\<close>; a property of an object
  whose value is \<open>undefined\<close> is left out, and the properties that remain are joined by
  commas. \<open>JSON.stringify(undefined)\<close> itself is \<open>undefined\<close>.
\<close>

fun stringify :: "json \<Rightarrow> jsstring"
and stringify_elements :: "json list \<Rightarrow> jsstring"
and stringify_members :: "(jsstring \<times> json) list \<Rightarrow> jsstring"
where
  "stringify JUndefined = js ''null''"
| "stringify JNull = js ''null''"
| "stringify (JBool b) = (if b then js ''true'' else js ''false'')"
| "stringify (JNumber lit) = lit"
| "stringify (JString s) = QuoteJSONString s"
| "stringify (JArray vs) = js ''['' @ stringify_elements vs @ js '']''"
| "stringify (JObject ps) = js ''{'' @ stringify_members ps @ js ''}''"
| "stringify_elements [] = []"
| "stringify_elements (v # vs) =
     stringify v @ (if vs = [] then [] else js '','' @ stringify_elements vs)"
| "stringify_members [] = []"
| "stringify_members (p # ps) =
     (if snd p = JUndefined then stringify_members ps
      else QuoteJSONString (fst p) @ js '':'' @ stringify (snd p)
             @ (if stringify_members ps = [] then [] else js '','' @ stringify_members ps))"

definition JSON_stringify :: "json \<Rightarrow> jsstring option" where
  "JSON_stringify v = (if v = JUndefined then None else Some (stringify v))"

subsection \<open>\<open>JSON.parse\<close>\<close>

definition hexValue :: "16 word \<Rightarrow> nat option" where
  "hexValue c =
     (if 0x30 \<le> c \<and> c \<le> 0x39 then Some (unat c - 48)
      else if 0x61 \<le> c \<and> c \<le> 0x66 then Some (unat c - 87)
      else if 0x41 \<le> c \<and> c \<le> 0x46 then Some (unat c - 55)
      else None)"

definition hex4 :: "16 word \<Rightarrow> 16 word \<Rightarrow> 16 word \<Rightarrow> 16 word \<Rightarrow> 16 word option" where
  "hex4 a b c d =
     (case (hexValue a, hexValue b, hexValue c, hexValue d) of
        (Some x3, Some x2, Some x1, Some x0) \<Rightarrow> Some (of_nat (((x3 * 16 + x2) * 16 + x1) * 16 + x0))
      | _ \<Rightarrow> None)"

text \<open>The character after a backslash, other than \<open>u\<close>.\<close>

definition unescape :: "16 word \<Rightarrow> 16 word option" where
  "unescape e =
     (if e = 0x22 then Some 0x22 else if e = 0x5C then Some 0x5C else if e = 0x2F then Some 0x2F
      else if e = 0x62 then Some 0x08 else if e = 0x66 then Some 0x0C
      else if e = 0x6E then Some 0x0A else if e = 0x72 then Some 0x0D
      else if e = 0x74 then Some 0x09 else None)"

definition consUnit :: "16 word \<Rightarrow> (jsstring \<times> jsstring) option \<Rightarrow> (jsstring \<times> jsstring) option" where
  "consUnit w res = (case res of None \<Rightarrow> None | Some (str, rest) \<Rightarrow> Some (w # str, rest))"

text \<open>
  The characters of a string literal after its opening quote: the decoded string and
  what follows the closing quote. \<open>None\<close> is a SyntaxError.
\<close>

fun parse_chars :: "jsstring \<Rightarrow> (jsstring \<times> jsstring) option" where
  "parse_chars [] = None"
| "parse_chars (c # r) =
     (if c = 0x22 then Some ([], r)
      else if c = 0x5C then
        (case r of
           [] \<Rightarrow> None
         | e # r1 \<Rightarrow>
            if e = 0x75 then
              (case r1 of
                 a # b # c' # d # r2 \<Rightarrow>
                   (case hex4 a b c' d of None \<Rightarrow> None | Some w \<Rightarrow> consUnit w (parse_chars r2))
               | _ \<Rightarrow> None)
            else (case unescape e of None \<Rightarrow> None | Some w \<Rightarrow> consUnit w (parse_chars r1)))
      else if c < 0x20 then None
      else consUnit c (parse_chars r))"

definition isDigit :: "16 word \<Rightarrow> bool" where
  "isDigit c = (0x30 \<le> c \<and> c \<le> 0x39)"

definition isWhiteSpace :: "16 word \<Rightarrow> bool" where
  "isWhiteSpace c = (c = 0x09 \<or> c = 0x0A \<or> c = 0x0D \<or> c = 0x20)"

definition skip_ws :: "jsstring \<Rightarrow> jsstring" where
  "skip_ws s = dropWhile isWhiteSpace s"

text \<open>
  A number literal: an optional minus, an integer part without a leading zero, an
  optional fraction, an optional exponent. The result is the literal and the rest.
\<close>

definition parse_number :: "jsstring \<Rightarrow> (jsstring \<times> jsstring) option" where
  "parse_number s =
     (let s0 = (if take 1 s = js ''-'' then drop 1 s else s);
          ip = takeWhile isDigit s0;
          s1 = dropWhile isDigit s0;
          hasFrac = (take 1 s1 = js ''.'');
          fp = (if hasFrac then takeWhile isDigit (drop 1 s1) else []);
          s2 = (if hasFrac then dropWhile isDigit (drop 1 s1) else s1);
          hasExp = (take 1 s2 = js ''e'' \<or> take 1 s2 = js ''E'');
          s3 = (if take 1 (drop 1 s2) = js ''+'' \<or> take 1 (drop 1 s2) = js ''-''
                then drop 2 s2 else drop 1 s2);
          ep = (if hasExp then takeWhile isDigit s3 else []);
          rest = (if hasExp then dropWhile isDigit s3 else s2)
      in if ip = [] \<or> (1 < length ip \<and> take 1 ip = js ''0'') \<or> (hasFrac \<and> fp = [])
            \<or> (hasExp \<and> ep = [])
         then None
         else Some (take (length s - length rest) s, rest))"

text \<open>
  \<open>CreateDataProperty\<close>: a repeated key keeps its place and takes the later value.
\<close>

fun setMember :: "(jsstring \<times> json) list \<Rightarrow> jsstring \<Rightarrow> json \<Rightarrow> (jsstring \<times> json) list" where
  "setMember [] k v = [(k, v)]"
| "setMember (p # ps) k v = (if fst p = k then (k, v) # ps else p # setMember ps k v)"

text \<open>
  The recursive descent. The first argument bounds the depth of the calls and is
  there for termination only. \<open>JSON_parse\<close> starts it at the length of the text: an
  opening bracket or brace accounts for at most two nested calls and has its closing
  one in the text, and a text where one is missing is a SyntaxError in any case.
\<close>

fun parse_value :: "nat \<Rightarrow> jsstring \<Rightarrow> (json \<times> jsstring) option"
and parse_elements :: "nat \<Rightarrow> jsstring \<Rightarrow> (json list \<times> jsstring) option"
and parse_members :: "nat \<Rightarrow> jsstring \<Rightarrow> ((jsstring \<times> json) list \<times> jsstring) option"
where
  "parse_value 0 s = None"
| "parse_value (Suc n) s =
     (case skip_ws s of
        [] \<Rightarrow> None
      | c # r \<Rightarrow>
         if c = 0x22 then
           (case parse_chars r of None \<Rightarrow> None | Some (str, rest) \<Rightarrow> Some (JString str, rest))
         else if c = 0x5B then
           (case skip_ws r of
              [] \<Rightarrow> None
            | c1 # r1 \<Rightarrow>
               if c1 = 0x5D then Some (JArray [], r1)
               else (case parse_elements n r of
                       None \<Rightarrow> None
                     | Some (vs, rest) \<Rightarrow> Some (JArray vs, rest)))
         else if c = 0x7B then
           (case skip_ws r of
              [] \<Rightarrow> None
            | c1 # r1 \<Rightarrow>
               if c1 = 0x7D then Some (JObject [], r1)
               else (case parse_members n r of
                       None \<Rightarrow> None
                     | Some (ms, rest) \<Rightarrow>
                         Some (JObject (foldl (\<lambda>ps m. setMember ps (fst m) (snd m)) [] ms), rest)))
         else if prefix (js ''null'') (c # r) then Some (JNull, drop 4 (c # r))
         else if prefix (js ''true'') (c # r) then Some (JBool True, drop 4 (c # r))
         else if prefix (js ''false'') (c # r) then Some (JBool False, drop 5 (c # r))
         else (case parse_number (c # r) of
                 None \<Rightarrow> None
               | Some (lit, rest) \<Rightarrow> Some (JNumber lit, rest)))"
| "parse_elements 0 s = None"
| "parse_elements (Suc n) s =
     (case parse_value n s of
        None \<Rightarrow> None
      | Some (v, r) \<Rightarrow>
         (case skip_ws r of
            [] \<Rightarrow> None
          | c # r1 \<Rightarrow>
             if c = 0x2C then
               (case parse_elements n r1 of
                  None \<Rightarrow> None
                | Some (vs, rest) \<Rightarrow> Some (v # vs, rest))
             else if c = 0x5D then Some ([v], r1)
             else None))"
| "parse_members 0 s = None"
| "parse_members (Suc n) s =
     (case skip_ws s of
        [] \<Rightarrow> None
      | c # r \<Rightarrow>
         if c \<noteq> 0x22 then None
         else
           (case parse_chars r of
              None \<Rightarrow> None
            | Some (k, r1) \<Rightarrow>
               (case skip_ws r1 of
                  [] \<Rightarrow> None
                | c1 # r2 \<Rightarrow>
                   if c1 \<noteq> 0x3A then None
                   else
                     (case parse_value n r2 of
                        None \<Rightarrow> None
                      | Some (v, r3) \<Rightarrow>
                         (case skip_ws r3 of
                            [] \<Rightarrow> None
                          | c2 # r4 \<Rightarrow>
                             if c2 = 0x2C then
                               (case parse_members n r4 of
                                  None \<Rightarrow> None
                                | Some (ms, rest) \<Rightarrow> Some ((k, v) # ms, rest))
                             else if c2 = 0x7D then Some ([(k, v)], r4)
                             else None)))))"

text \<open>\<open>JSON.parse(text)\<close>; \<open>None\<close> is the SyntaxError it throws.\<close>

definition JSON_parse :: "jsstring \<Rightarrow> json option" where
  "JSON_parse s =
     (case parse_value (length s) s of
        None \<Rightarrow> None
      | Some (v, rest) \<Rightarrow> if skip_ws rest = [] then Some v else None)"

subsection \<open>The state as a JavaScript value\<close>

definition recurrenceName :: "Recurrence \<Rightarrow> jsstring" where
  "recurrenceName r =
     (case r of none \<Rightarrow> js ''none'' | daily \<Rightarrow> js ''daily'' | weekly \<Rightarrow> js ''weekly''
      | monthly \<Rightarrow> js ''monthly'')"

definition stringValue :: "jsstring optional \<Rightarrow> json" where
  "stringValue x = (case x of Undefined \<Rightarrow> JUndefined | Defined v \<Rightarrow> JString v)"

definition nullableValue :: "jsstring option optional \<Rightarrow> json" where
  "nullableValue x =
     (case x of Undefined \<Rightarrow> JUndefined | Defined None \<Rightarrow> JNull | Defined (Some v) \<Rightarrow> JString v)"

definition boolValue :: "bool optional \<Rightarrow> json" where
  "boolValue x = (case x of Undefined \<Rightarrow> JUndefined | Defined b \<Rightarrow> JBool b)"

definition recurrenceValue :: "Recurrence optional \<Rightarrow> json" where
  "recurrenceValue x =
     (case x of Undefined \<Rightarrow> JUndefined | Defined r \<Rightarrow> JString (recurrenceName r))"

text \<open>
  The objects the state consists of, with their properties in the order \<open>addTask\<close>,
  \<open>completeNow\<close> and the initial state create them; a spread keeps that order.
\<close>

definition taskValue :: "Task \<Rightarrow> json" where
  "taskValue t =
     JObject [(js ''id'', stringValue (t_id t)), (js ''title'', stringValue (title t)),
              (js ''notes'', stringValue (t_notes t)),
              (js ''createdAt'', stringValue (createdAt t)),
              (js ''due'', nullableValue (due t)),
              (js ''recurrence'', recurrenceValue (recurrence t)),
              (js ''completed'', boolValue (completed t)),
              (js ''nextDue'', nullableValue (nextDue t)),
              (js ''archived'', boolValue (archived t))]"

definition historyValue :: "HistoryItem \<Rightarrow> json" where
  "historyValue hi =
     JObject [(js ''id'', JString (h_id hi)), (js ''taskId'', JString (taskId hi)),
              (js ''title'', stringValue (h_title hi)), (js ''at'', JString (at hi))]"

definition stateValue :: "AppState \<Rightarrow> json" where
  "stateValue s =
     JObject [(js ''tasks'', JArray (map taskValue (tasks s))),
              (js ''history'', JArray (map historyValue (history s))),
              (js ''settings'', JObject [(js ''timezone'', JString (timezone (settings s)))])]"

text \<open>
  What is left of a value when every property that holds \<open>undefined\<close> is removed (and
  an \<open>undefined\<close> element of an array is \<open>null\<close>): what \<open>JSON.stringify\<close> writes down.
\<close>

fun defined_part :: "json \<Rightarrow> json"
and defined_elements :: "json list \<Rightarrow> json list"
and defined_members :: "(jsstring \<times> json) list \<Rightarrow> (jsstring \<times> json) list"
where
  "defined_part (JArray vs) = JArray (defined_elements vs)"
| "defined_part (JObject ps) = JObject (defined_members ps)"
| "defined_part JUndefined = JNull"
| "defined_part JNull = JNull"
| "defined_part (JBool b) = JBool b"
| "defined_part (JNumber lit) = JNumber lit"
| "defined_part (JString s) = JString s"
| "defined_elements [] = []"
| "defined_elements (v # vs) = defined_part v # defined_elements vs"
| "defined_members [] = []"
| "defined_members (p # ps) =
     (if snd p = JUndefined then defined_members ps
      else (fst p, defined_part (snd p)) # defined_members ps)"

text \<open>
  A value \<open>JSON.stringify\<close> can write so that \<open>JSON.parse\<close> reads it again: it holds no
  number, and no object in it has the same key twice. \<open>opens\<close> holds of the characters
  such a value's text can begin with.
\<close>

fun storable :: "json \<Rightarrow> bool"
and storable_elements :: "json list \<Rightarrow> bool"
and storable_members :: "(jsstring \<times> json) list \<Rightarrow> bool"
where
  "storable (JNumber lit) = False"
| "storable (JArray vs) = storable_elements vs"
| "storable (JObject ps) = (distinct (map fst ps) \<and> storable_members ps)"
| "storable JUndefined = True"
| "storable JNull = True"
| "storable (JBool b) = True"
| "storable (JString s) = True"
| "storable_elements [] = True"
| "storable_elements (v # vs) = (storable v \<and> storable_elements vs)"
| "storable_members [] = True"
| "storable_members (p # ps) = (storable (snd p) \<and> storable_members ps)"

definition opens :: "16 word \<Rightarrow> bool" where
  "opens c = (c = 0x22 \<or> c = 0x5B \<or> c = 0x7B \<or> c = 0x6E \<or> c = 0x74 \<or> c = 0x66)"

text \<open>
  A task none of whose fields is \<open>undefined\<close>; a state all of whose tasks are such and
  whose history entries all have a title; and a patch none of whose keys holds
  \<open>undefined\<close>.
\<close>

definition definedTask :: "Task \<Rightarrow> bool" where
  "definedTask t =
     (t_id t \<noteq> Undefined \<and> title t \<noteq> Undefined \<and> t_notes t \<noteq> Undefined
      \<and> createdAt t \<noteq> Undefined \<and> due t \<noteq> Undefined \<and> recurrence t \<noteq> Undefined
      \<and> completed t \<noteq> Undefined \<and> nextDue t \<noteq> Undefined \<and> archived t \<noteq> Undefined)"

definition allDefined :: "AppState \<Rightarrow> bool" where
  "allDefined s =
     (list_all definedTask (tasks s) \<and> list_all (\<lambda>hi. h_title hi \<noteq> Undefined) (history s))"

definition definedPatch :: "TaskPatch \<Rightarrow> bool" where
  "definedPatch p =
     (p_id p \<noteq> Some Undefined \<and> p_title p \<noteq> Some Undefined \<and> p_notes p \<noteq> Some Undefined
      \<and> p_createdAt p \<noteq> Some Undefined \<and> p_due p \<noteq> Some Undefined
      \<and> p_recurrence p \<noteq> Some Undefined \<and> p_completed p \<noteq> Some Undefined
      \<and> p_nextDue p \<noteq> Some Undefined \<and> p_archived p \<noteq> Some Undefined)"

subsection \<open>\<open>localStorage\<close>, \<open>saveState\<close> and \<open>loadState\<close>\<close>

type_synonym Storage = "jsstring \<rightharpoonup> jsstring"

definition getItem :: "Storage \<Rightarrow> jsstring \<Rightarrow> jsstring option" where
  "getItem st k = st k"

text \<open>\<open>setItem\<close> stores the string of its argument: \<open>"undefined"\<close> for \<open>undefined\<close>.\<close>

definition setItem :: "host \<Rightarrow> Storage \<Rightarrow> jsstring \<Rightarrow> jsstring option \<Rightarrow> error + Storage" where
  "setItem h st k v =
     (let txt = (case v of None \<Rightarrow> js ''undefined'' | Some t \<Rightarrow> t)
      in if storageAccepts h k txt then Inr (st(k \<mapsto> txt)) else Inl QuotaExceededError)"

definition saveState :: "host \<Rightarrow> AppState \<Rightarrow> Storage \<Rightarrow> error + Storage" where
  "saveState h state st = setItem h st STORAGE_KEY (JSON_stringify (stateValue state))"

text \<open>
  \<open>loadState\<close> returns \<open>null\<close> (\<open>JNull\<close>) when the key is missing, when the entry is the
  empty string, and when \<open>JSON.parse\<close> throws; otherwise the value \<open>JSON.parse\<close> built.
\<close>

definition loadState :: "Storage \<Rightarrow> json" where
  "loadState st =
     (case getItem st STORAGE_KEY of
        None \<Rightarrow> JNull
      | Some raw \<Rightarrow>
         if raw = [] then JNull
         else (case JSON_parse raw of None \<Rightarrow> JNull | Some v \<Rightarrow> v))"

section \<open>Example hosts and states\<close>

text \<open>
  Two hosts without daylight saving time: UTC, and UTC+6 (Asia/Dhaka). The date label is
  the one the locale \<open>en-US\<close> writes, month/day/year without leading zeros.
  \<open>toLowerCase\<close> is the ASCII part of the Unicode mapping. \<open>parseOther\<close> answers NaN; it
  is consulted below on the empty string and on the word \<open>tomorrow\<close> only, which no
  host reads as a date.
\<close>

definition asciiLower :: "jsstring \<Rightarrow> jsstring" where
  "asciiLower s = map (\<lambda>c. if 0x41 \<le> c \<and> c \<le> 0x5A then c + 0x20 else c) s"

definition short :: "nat \<Rightarrow> jsstring" where
  "short n = (if n < 10 then [digit n] else pad2 n)"

definition usDate :: "int \<Rightarrow> jsstring" where
  "usDate lt =
     short (nat (MonthFromTime lt + 1)) @ js ''/'' @ short (nat (DateFromTime lt)) @ js ''/''
       @ pad4 (nat (YearFromTime lt))"

definition utcHost :: host where
  "utcHost = \<lparr>LocalTZA = 0, inDaylightTime = (\<lambda>t. False), parseOther = (\<lambda>s. None),
              toLocaleDateString = usDate,
              toLowerCase = asciiLower, storageAccepts = (\<lambda>k v. True)\<rparr>"

definition dhakaHost :: host where
  "dhakaHost = \<lparr>LocalTZA = 21600000, inDaylightTime = (\<lambda>t. False), parseOther = (\<lambda>s. None),
                toLocaleDateString = (\<lambda>t. usDate (t + 21600000)),
                toLowerCase = asciiLower, storageAccepts = (\<lambda>k v. True)\<rparr>"

text \<open>A task as \<open>addTask\<close> builds it, with no due date and no recurrence.\<close>

definition newTask :: "jsstring \<Rightarrow> jsstring \<Rightarrow> Task" where
  "newTask i ttl =
     \<lparr>t_id = Defined i, title = Defined ttl, t_notes = Defined [],
      createdAt = Defined (js ''2026-11-01T08:00:00.000Z''), due = Defined None,
      recurrence = Defined none, completed = Defined False, nextDue = Defined None,
      archived = Defined False\<rparr>"

definition buyMilk :: Task where
  "buyMilk = newTask (js ''a1'') (js ''Buy milk'')"

definition payRent :: Task where
  "payRent = (newTask (js ''b2'') (js ''Pay rent''))\<lparr>completed := Defined True\<rparr>"

definition oldTask :: Task where
  "oldTask = (newTask (js ''c3'') (js ''Old''))\<lparr>archived := Defined True\<rparr>"

definition waterPlants :: Task where
  "waterPlants =
     (newTask (js ''d4'') (js ''Water plants''))
       \<lparr>recurrence := Defined daily, due := Defined (Some (js ''2026-11-03T04:00:00.000Z'')),
        nextDue := Defined (Some (js ''2026-11-03T04:00:00.000Z''))\<rparr>"

definition milkDone :: HistoryItem where
  "milkDone = \<lparr>h_id = js ''h1'', taskId = js ''a1'', h_title = Defined (js ''Buy milk''),
               at = js ''2026-11-03T04:00:00.000Z''\<rparr>"

text \<open>
  Four tasks only a caller of the operations can build: one due on the last day a
  \<open>Date\<close> can hold, one whose \<open>nextDue\<close> a patch set to the empty string, one whose
  \<open>recurrence\<close> a patch set to \<open>undefined\<close>, and one added with a due date that is no date.
\<close>

definition lastDay :: Task where
  "lastDay =
     (newTask (js ''e5'') (js ''Last day''))
       \<lparr>recurrence := Defined daily,
        due := Defined (Some (js ''+275760-09-13T00:00:00.000Z'')),
        nextDue := Defined (Some (js ''+275760-09-13T00:00:00.000Z''))\<rparr>"

definition blankDue :: Task where
  "blankDue =
     (newTask (js ''f6'') (js ''Blank''))\<lparr>recurrence := Defined daily, nextDue := Defined (Some [])\<rparr>"

definition noRule :: Task where
  "noRule = (newTask (js ''g7'') (js ''No rule''))\<lparr>recurrence := Undefined\<rparr>"

definition vagueDue :: Task where
  "vagueDue =
     (newTask (js ''h8'') (js ''Vague''))
       \<lparr>recurrence := Defined weekly, due := Defined (Some (js ''tomorrow'')),
        nextDue := Defined (Some (js ''tomorrow''))\<rparr>"

definition recurringState :: AppState where
  "recurringState =
     \<lparr>tasks = [waterPlants, lastDay, blankDue, noRule, vagueDue], history = [],
      settings = \<lparr>timezone = js ''UTC''\<rparr>\<rparr>"

definition exampleState :: AppState where
  "exampleState =
     \<lparr>tasks = [buyMilk, payRent, oldTask], history = [milkDone],
      settings = \<lparr>timezone = js ''Asia/Dhaka''\<rparr>\<rparr>"

text \<open>
  The state after \<open>addTask\<close> on a first run followed by \<open>editTask(id, {notes: undefined})\<close>.
\<close>

definition withoutNotes :: AppState where
  "withoutNotes =
     editTask (js ''a1'') (noPatch\<lparr>p_notes := Some Undefined\<rparr>)
       (addTask (js ''a1'') 1793678400000 (js ''Buy milk'') [] None none
          (freshState (js ''Asia/Dhaka'')))"

section \<open>Facts about dates\<close>

subsection \<open>Years and days\<close>

lemma DaysInYear_cases: "DaysInYear y = 365 \<or> DaysInYear y = 366"
  by (simp add: DaysInYear_def)

lemma div_bounds: "(0::int) < k \<Longrightarrow> k * (x div k) \<le> x \<and> x < k * (x div k) + k"
  using mult_div_mod_eq[of k x] pos_mod_sign[of k x] pos_mod_bound[of k x] by linarith

lemma div_step:
  assumes "(0::int) < k"
  shows "(x + 1) div k = x div k + (if (x + 1) mod k = 0 then 1 else 0)"
proof -
  define q where "q = (x + 1) div k"
  define r where "r = (x + 1) mod k"
  have eq: "x + 1 = k * q + r" and r: "0 \<le> r" "r < k"
    using assms by (simp_all add: q_def r_def)
  show ?thesis
  proof (cases "r = 0")
    case True
    have "x = k * (q - 1) + (k - 1)"
      using eq True by (simp add: algebra_simps)
    then have "x div k = q - 1"
      by (rule int_div_pos_eq) (use assms in auto)
    with True show ?thesis by (simp add: q_def r_def)
  next
    case False
    have "x = k * q + (r - 1)"
      using eq by simp
    then have "x div k = q"
      by (rule int_div_pos_eq) (use r False in auto)
    with False show ?thesis by (simp add: q_def r_def)
  qed
qed

lemma mod_shift: "(y - k * c) mod k = (y::int) mod k"
proof -
  have "(y + k * (- c)) mod k = y mod k"
    by (rule mod_mult_self2)
  then show ?thesis by simp
qed

lemma DayFromYear_step: "DayFromYear (y + 1) = DayFromYear y + DaysInYear y"
proof -
  have m4: "(y - 1968) mod 4 = y mod 4" using mod_shift[of y 4 492] by simp
  have m100: "(y - 1900) mod 100 = y mod 100" using mod_shift[of y 100 19] by simp
  have m400: "(y - 1600) mod 400 = y mod 400" using mod_shift[of y 400 4] by simp
  have a: "(y + 1 - 1969) div 4 = (y - 1969) div 4 + (if y mod 4 = 0 then 1 else 0)"
    using div_step[of 4 "y - 1969"] m4 by simp
  have b: "(y + 1 - 1901) div 100 = (y - 1901) div 100 + (if y mod 100 = 0 then 1 else 0)"
    using div_step[of 100 "y - 1901"] m100 by simp
  have c: "(y + 1 - 1601) div 400 = (y - 1601) div 400 + (if y mod 400 = 0 then 1 else 0)"
    using div_step[of 400 "y - 1601"] m400 by simp
  have d: "y mod 400 = 0 \<Longrightarrow> y mod 100 = 0"
    using mod_mod_cancel[of 100 400 y] by simp
  have e: "y mod 100 = 0 \<Longrightarrow> y mod 4 = 0"
    using mod_mod_cancel[of 4 100 y] by simp
  show ?thesis
    unfolding DayFromYear_def DaysInYear_def a b c using d e by auto
qed

lemma DayFromYear_mono_aux: "DayFromYear y + 365 * int n \<le> DayFromYear (y + int n)"
proof (induction n)
  case 0 show ?case by simp
next
  case (Suc n)
  have "DayFromYear (y + int (Suc n)) = DayFromYear ((y + int n) + 1)"
    by (simp add: ac_simps)
  also have "\<dots> = DayFromYear (y + int n) + DaysInYear (y + int n)"
    by (rule DayFromYear_step)
  finally have "DayFromYear (y + int (Suc n)) = DayFromYear (y + int n) + DaysInYear (y + int n)" .
  with Suc DaysInYear_cases[of "y + int n"] show ?case by auto
qed

lemma DayFromYear_mono: "y \<le> y' \<Longrightarrow> DayFromYear y \<le> DayFromYear y'"
  using DayFromYear_mono_aux[of y "nat (y' - y)"] by simp

lemma DayFromYear_strict: "y < y' \<Longrightarrow> DayFromYear y < DayFromYear y'"
  using DayFromYear_mono_aux[of y "nat (y' - y)"] by simp

lemma DayFromYear_upper: "400 * DayFromYear y \<le> 146097 * (y - 1970) + 589"
  unfolding DayFromYear_def
  using div_bounds[of 4 "y - 1969"] div_bounds[of 100 "y - 1901"] div_bounds[of 400 "y - 1601"]
  by simp

lemma DayFromYear_lower: "146097 * (y - 1970) - 507 \<le> 400 * DayFromYear y"
  unfolding DayFromYear_def
  using div_bounds[of 4 "y - 1969"] div_bounds[of 100 "y - 1901"] div_bounds[of 400 "y - 1601"]
  by simp


lemma YearFromTime_bounds:
  "DayFromYear (YearFromTime t) \<le> Day t \<and> Day t < DayFromYear (YearFromTime t + 1)"
proof -
  define d where "d = Day t"
  define y0 where "y0 = 1970 + (400 * d) div 146097"
  have e: "146097 * (y0 - 1970) \<le> 400 * d" "400 * d < 146097 * (y0 - 1970) + 146097"
    using div_bounds[of 146097 "400 * d"] by (simp_all add: y0_def)
  have lo: "DayFromYear (y0 - 1) \<le> d"
    using DayFromYear_upper[of "y0 - 1"] e by simp
  have hi: "d < DayFromYear (y0 + 2)"
    using DayFromYear_lower[of "y0 + 2"] e by simp
  have "YearFromTime t = (if d < DayFromYear y0 then y0 - 1
         else if DayFromYear (y0 + 1) \<le> d then y0 + 1 else y0)"
    by (simp add: YearFromTime_def Let_def d_def y0_def)
  then show ?thesis
    using lo hi by (auto simp: d_def[symmetric] add.commute)
qed

lemma YearFromTime_unique:
  assumes "DayFromYear y \<le> Day t" "Day t < DayFromYear (y + 1)"
  shows "YearFromTime t = y"
proof (rule ccontr)
  assume neq: "YearFromTime t \<noteq> y"
  note b = YearFromTime_bounds[of t]
  show False
  proof (cases "YearFromTime t < y")
    case True
    then have "DayFromYear (YearFromTime t + 1) \<le> DayFromYear y"
      by (intro DayFromYear_mono) simp
    with b assms show False by simp
  next
    case False
    with neq have "DayFromYear (y + 1) \<le> DayFromYear (YearFromTime t)"
      by (intro DayFromYear_mono) simp
    with b assms show False by simp
  qed
qed

subsection \<open>Months, dates and the time of day\<close>

lemma DayWithinYear_range:
  "0 \<le> DayWithinYear t \<and> DayWithinYear t < DaysInYear (YearFromTime t)"
  using YearFromTime_bounds[of t] DayFromYear_step[of "YearFromTime t"]
  by (simp add: DayWithinYear_def)

lemma InLeapYear_days: "DaysInYear (YearFromTime t) = 365 + InLeapYear t"
  using DaysInYear_cases[of "YearFromTime t"] by (auto simp: InLeapYear_def)

lemma MonthFromTime_range: "0 \<le> MonthFromTime t \<and> MonthFromTime t \<le> 11"
  by (simp add: MonthFromTime_def Let_def)

lemma MonthFromTime_cases:
  "MonthFromTime t \<in> {0, 1, 2, 3, 4, 5, 6, 7, 8, 9, 10, 11}"
  by (simp add: MonthFromTime_def Let_def)

lemma DateFromTime_eq:
  "DateFromTime t = DayWithinYear t - DaysBeforeMonth (YearFromTime t) (MonthFromTime t) + 1"
proof -
  have l: "(if DaysInYear (YearFromTime t) = 365 then 0 else 1) = InLeapYear t"
    by (simp add: InLeapYear_def)
  have "MonthFromTime t \<in> {0, 1, 2, 3, 4, 5, 6, 7, 8, 9, 10, 11}"
    by (rule MonthFromTime_cases)
  then show ?thesis
    unfolding DateFromTime_def DaysBeforeMonth_def Let_def l
    by (elim insertE emptyE) simp_all
qed

lemma MakeDay_in_year:
  "0 \<le> m \<Longrightarrow> m \<le> 11 \<Longrightarrow> MakeDay y m d = DayFromYear y + DaysBeforeMonth y m + d - 1"
  by (simp add: MakeDay_def Let_def)

lemma MakeDay_of_fields:
  "MakeDay (YearFromTime t) (MonthFromTime t) (DateFromTime t + k) = Day t + k"
  using MonthFromTime_range[of t]
  by (simp add: MakeDay_in_year DateFromTime_eq DayWithinYear_def)


lemma Day_MakeDate: "0 \<le> tod \<Longrightarrow> tod < msPerDay \<Longrightarrow> Day (MakeDate d tod) = d"
  by (simp add: MakeDate_def Day_def msPerDay_def)

lemma TimeWithinDay_MakeDate:
  "0 \<le> tod \<Longrightarrow> tod < msPerDay \<Longrightarrow> TimeWithinDay (MakeDate d tod) = tod"
  by (simp add: MakeDate_def TimeWithinDay_def msPerDay_def)




lemma InLeapYear_cases: "InLeapYear t = 0 \<or> InLeapYear t = 1"
  by (simp add: InLeapYear_def)

lemma day_of_year_cases:
  fixes d l :: int
  obtains "d < 31" | "31 \<le> d" "d < 59 + l" | "59 + l \<le> d" "d < 90 + l"
    | "90 + l \<le> d" "d < 120 + l" | "120 + l \<le> d" "d < 151 + l"
    | "151 + l \<le> d" "d < 181 + l" | "181 + l \<le> d" "d < 212 + l"
    | "212 + l \<le> d" "d < 243 + l" | "243 + l \<le> d" "d < 273 + l"
    | "273 + l \<le> d" "d < 304 + l" | "304 + l \<le> d" "d < 334 + l" | "334 + l \<le> d"
  by (meson not_le)

lemma month_window_aux:
  fixes d l :: int
  assumes "0 \<le> d" "d < 365 + l" "l = 0 \<or> l = 1"
  shows "(let m = (if d < 31 then 0 else if d < 59 + l then 1 else if d < 90 + l then 2
         else if d < 120 + l then 3 else if d < 151 + l then 4 else if d < 181 + l then 5
         else if d < 212 + l then 6 else if d < 243 + l then 7 else if d < 273 + l then 8
         else if d < 304 + l then 9 else if d < 334 + l then (10::int) else 11);
           b = (if m = 0 then 0 else if m = 1 then 31 else if m = 2 then 59 + l
         else if m = 3 then 90 + l else if m = 4 then 120 + l else if m = 5 then 151 + l
         else if m = 6 then 181 + l else if m = 7 then 212 + l else if m = 8 then 243 + l
         else if m = 9 then 273 + l else if m = 10 then 304 + l else 334 + l);
           n = (if m = 1 then 28 + l else if m = 3 \<or> m = 5 \<or> m = 8 \<or> m = 10 then 30 else 31)
         in b \<le> d \<and> d < b + n)"
  using assms by (cases rule: day_of_year_cases[where d = d and l = l]) (simp_all add: Let_def)

lemma month_window:
  "DaysBeforeMonth (YearFromTime t) (MonthFromTime t) \<le> DayWithinYear t
   \<and> DayWithinYear t < DaysBeforeMonth (YearFromTime t) (MonthFromTime t)
                          + DaysInMonth (YearFromTime t) (MonthFromTime t)"
proof -
  have d: "0 \<le> DayWithinYear t" "DayWithinYear t < 365 + InLeapYear t"
    using DayWithinYear_range[of t] InLeapYear_days[of t] by simp_all
  have l: "(if DaysInYear (YearFromTime t) = 365 then 0 else 1) = InLeapYear t"
    by (simp add: InLeapYear_def)
  have l28: "(if DaysInYear (YearFromTime t) = 365 then 28 else 29) = 28 + InLeapYear t"
    by (simp add: InLeapYear_def)
  show ?thesis
    unfolding MonthFromTime_def DaysBeforeMonth_def DaysInMonth_def l l28
    using month_window_aux[OF d InLeapYear_cases]
    unfolding Let_def .
qed



lemma DateFromTime_month:
  "DateFromTime t \<le> DaysInMonth (YearFromTime t) (MonthFromTime t)"
  using month_window[of t] by (simp add: DateFromTime_eq)


subsection \<open>The range of years, and decimal digits\<close>


















subsection \<open>Reading back what \<open>toISOString\<close> writes\<close>

lemma length_pads [simp]: "length (pad2 n) = 2" "length (pad3 n) = 3" "length (pad4 n) = 4"
  "length (pad6 n) = 6"
  by (simp_all add: pad2_def pad3_def pad4_def pad6_def)






subsection \<open>\<open>MakeDay\<close> on a valid date\<close>

lemma leap_flag: "(if DaysInYear y = 365 then 0 else 1) = DaysInYear y - (365::int)"
  using DaysInYear_cases[of y] by auto

lemma month_index:
  "(0::int) \<le> m \<Longrightarrow> m \<le> 11 \<Longrightarrow> m \<in> {0, 1, 2, 3, 4, 5, 6, 7, 8, 9, 10, 11}"
  by simp presburger



lemma DaysBeforeMonth_nonneg: "0 \<le> DaysBeforeMonth y m"
  by (simp add: DaysBeforeMonth_def Let_def)

lemma month_end_in_year:
  assumes "0 \<le> m" "m \<le> 11"
  shows "DaysBeforeMonth y m + DaysInMonth y m \<le> DaysInYear y"
proof -
  from assms have "m \<in> {0, 1, 2, 3, 4, 5, 6, 7, 8, 9, 10, 11}" by (rule month_index)
  then show ?thesis
    using DaysInYear_cases[of y]
    unfolding DaysBeforeMonth_def DaysInMonth_def Let_def
    by (elim insertE emptyE) auto
qed

lemma month_of_window:
  fixes d l :: int
  assumes l: "l = 0 \<or> l = 1"
    and m: "m \<in> {0, 1, 2, 3, 4, 5, 6, 7, 8, 9, 10, 11}"
    and lo: "(if m = 0 then 0 else if m = 1 then 31 else if m = 2 then 59 + l
         else if m = 3 then 90 + l else if m = 4 then 120 + l else if m = 5 then 151 + l
         else if m = 6 then 181 + l else if m = 7 then 212 + l else if m = 8 then 243 + l
         else if m = 9 then 273 + l else if m = 10 then 304 + l else 334 + l) \<le> d"
    and hi: "d < (if m = 0 then 0 else if m = 1 then 31 else if m = 2 then 59 + l
         else if m = 3 then 90 + l else if m = 4 then 120 + l else if m = 5 then 151 + l
         else if m = 6 then 181 + l else if m = 7 then 212 + l else if m = 8 then 243 + l
         else if m = 9 then 273 + l else if m = 10 then 304 + l else 334 + l)
         + (if m = 1 then 28 + l else if m = 3 \<or> m = 5 \<or> m = 8 \<or> m = 10 then 30 else 31)"
  shows "(if d < 31 then 0 else if d < 59 + l then 1 else if d < 90 + l then 2
         else if d < 120 + l then 3 else if d < 151 + l then 4 else if d < 181 + l then 5
         else if d < 212 + l then 6 else if d < 243 + l then 7 else if d < 273 + l then 8
         else if d < 304 + l then 9 else if d < 334 + l then (10::int) else 11) = m"
  using m l lo hi by (elim insertE emptyE) auto

lemma MakeDay_fields:
  assumes m: "0 \<le> m" "m \<le> 11" and d: "1 \<le> d" "d \<le> DaysInMonth y m"
    and tod: "0 \<le> tod" "tod < msPerDay"
  defines "x \<equiv> MakeDate (MakeDay y m d) tod"
  shows "YearFromTime x = y" "MonthFromTime x = m" "DateFromTime x = d"
    "TimeWithinDay x = tod"
proof -
  have day: "Day x = DayFromYear y + DaysBeforeMonth y m + d - 1"
    using m tod by (simp add: x_def Day_MakeDate MakeDay_in_year)
  have "DayFromYear y \<le> Day x"
    using DaysBeforeMonth_nonneg[of y m] d by (simp add: day)
  moreover have "Day x < DayFromYear (y + 1)"
    using month_end_in_year[OF m, of y] d by (simp add: day DayFromYear_step)
  ultimately show y: "YearFromTime x = y"
    by (rule YearFromTime_unique)
  have dw: "DayWithinYear x = DaysBeforeMonth y m + d - 1"
    by (simp add: DayWithinYear_def y day)
  have l: "(if DaysInYear y = 365 then 0 else 1) = InLeapYear x"
    by (simp add: InLeapYear_def y)
  have l28: "(if DaysInYear y = 365 then 28 else 29) = 28 + InLeapYear x"
    by (simp add: InLeapYear_def y)
  from m have mset: "m \<in> {0, 1, 2, 3, 4, 5, 6, 7, 8, 9, 10, 11}" by (rule month_index)
  have lo: "DaysBeforeMonth y m \<le> DayWithinYear x"
    using d by (simp add: dw)
  have hi: "DayWithinYear x < DaysBeforeMonth y m + DaysInMonth y m"
    using d by (simp add: dw)
  show mo: "MonthFromTime x = m"
    unfolding MonthFromTime_def Let_def
    by (rule month_of_window[OF InLeapYear_cases mset
          lo[unfolded DaysBeforeMonth_def Let_def l]
          hi[unfolded DaysBeforeMonth_def DaysInMonth_def Let_def l l28]])
  show "DateFromTime x = d"
    by (simp add: DateFromTime_eq y mo dw)
  show "TimeWithinDay x = tod"
    using tod by (simp add: x_def TimeWithinDay_MakeDate)
qed



subsection \<open>The ISO string of a given date\<close>

lemma div_of_mod:
  assumes "(0::int) < b" "0 < c"
  shows "(a mod (b * c)) div b = a div b mod c"
proof -
  have "a mod (b * c) = b * (a div b mod c) + a mod b"
    using assms by (simp add: zmod_zmult2_eq)
  then show ?thesis
    by (rule int_div_pos_eq) (use assms in simp_all)
qed

lemma time_fields_within_day:
  "HourFromTime (TimeWithinDay t) = HourFromTime t"
  "MinFromTime (TimeWithinDay t) = MinFromTime t"
  "SecFromTime (TimeWithinDay t) = SecFromTime t"
  "msFromTime (TimeWithinDay t) = msFromTime t"
proof -
  have h: "(t mod (3600000 * 24)) div 3600000 = t div 3600000 mod 24"
    by (rule div_of_mod) simp_all
  have mi: "(t mod (60000 * 1440)) div 60000 = t div 60000 mod 1440"
    by (rule div_of_mod) simp_all
  have se: "(t mod (1000 * 86400)) div 1000 = t div 1000 mod 86400"
    by (rule div_of_mod) simp_all
  have n: "(3600000::int) * 24 = 86400000" "(60000::int) * 1440 = 86400000"
    "(1000::int) * 86400 = 86400000"
    by simp_all
  have c1: "t div 60000 mod 1440 mod 60 = t div 60000 mod 60"
    by (rule mod_mod_cancel) simp
  have c2: "t div 1000 mod 86400 mod 60 = t div 1000 mod 60"
    by (rule mod_mod_cancel) simp
  have c3: "t mod 86400000 mod 1000 = t mod 1000"
    by (rule mod_mod_cancel) simp
  show "HourFromTime (TimeWithinDay t) = HourFromTime t"
    unfolding HourFromTime_def TimeWithinDay_def msPerDay_def msPerHour_def
    by (simp only: h[unfolded n] mod_mod_trivial)
  show "MinFromTime (TimeWithinDay t) = MinFromTime t"
    unfolding MinFromTime_def TimeWithinDay_def msPerDay_def msPerMinute_def
    by (simp only: mi[unfolded n] c1)
  show "SecFromTime (TimeWithinDay t) = SecFromTime t"
    unfolding SecFromTime_def TimeWithinDay_def msPerDay_def msPerSecond_def
    by (simp only: se[unfolded n] c2)
  show "msFromTime (TimeWithinDay t) = msFromTime t"
    unfolding msFromTime_def TimeWithinDay_def msPerDay_def msPerSecond_def
    by (simp only: c3)
qed

lemma ISOString_MakeDate:
  assumes m: "0 \<le> m" "m \<le> 11" and d: "1 \<le> d" "d \<le> DaysInMonth y m"
    and tod: "0 \<le> tod" "tod < msPerDay"
  shows "ISOString (MakeDate (MakeDay y m d) tod) =
           isoYear y @ js ''-'' @ pad2 (nat (m + 1)) @ js ''-'' @ pad2 (nat d) @ js ''T''
             @ pad2 (nat (HourFromTime tod)) @ js '':'' @ pad2 (nat (MinFromTime tod)) @ js '':''
             @ pad2 (nat (SecFromTime tod)) @ js ''.'' @ pad3 (nat (msFromTime tod)) @ js ''Z''"
proof -
  define x where "x = MakeDate (MakeDay y m d) tod"
  note f = MakeDay_fields[OF m d tod, folded x_def]
  have "HourFromTime x = HourFromTime tod" "MinFromTime x = MinFromTime tod"
    "SecFromTime x = SecFromTime tod" "msFromTime x = msFromTime tod"
    using time_fields_within_day[of x] by (simp_all add: f)
  then show ?thesis
    unfolding x_def[symmetric] by (simp add: ISOString_def f)
qed

subsection \<open>\<open>plusInterval\<close> and the calendar step\<close>


lemma setDate_plus:
  "setDate h (Some t) (map_option (\<lambda>n. n + k) (getDate h (Some t)))
     = TimeClip (UTC h (MakeDate (Day (LocalTime h t) + k) (TimeWithinDay (LocalTime h t))))"
  by (simp add: setDate_def getDate_def Let_def MakeDay_of_fields)











section \<open>Facts about the mutations\<close>

lemmas example_defs =
  exampleState_def recurringState_def buyMilk_def payRent_def oldTask_def waterPlants_def
  lastDay_def blankDue_def noRule_def vagueDue_def milkDone_def newTask_def js_def

lemma find_None_ids: "find (\<lambda>x. t_id x = i) ts = None \<longleftrightarrow> i \<notin> t_id ` set ts"
  by (auto simp: find_None_iff)

lemma map_if_absent:
  "i \<notin> t_id ` set ts \<Longrightarrow> map (\<lambda>t. if t_id t = i then f t else t) ts = ts"
  by (induction ts) auto

lemma filter_absent: "i \<notin> t_id ` set ts \<Longrightarrow> filter (\<lambda>t. t_id t \<noteq> i) ts = ts"
  by (induction ts) auto

lemma completeNow_history:
  "completeNow h uuid clock i s = Inr s' \<Longrightarrow>
   history s' = history s \<or> (\<exists>x. history s' = x # history s)"
  by (auto simp: completeNow_def Let_def split: option.splits if_splits sum.splits)

lemma completeNow_settings:
  "completeNow h uuid clock i s = Inr s' \<Longrightarrow> settings s' = settings s"
  by (auto simp: completeNow_def Let_def split: option.splits if_splits sum.splits)

lemma completeNow_tasks_ids:
  "completeNow h uuid clock i s = Inr s' \<Longrightarrow> map t_id (tasks s') = map t_id (tasks s)"
  by (auto simp: completeNow_def Let_def comp_def split: option.splits if_splits sum.splits)

lemma mutate_history:
  "mutate h m s = Inr s' \<Longrightarrow> history s' = history s \<or> (\<exists>x. history s' = x # history s)"
  by (cases m)
     (auto simp: addTask_def editTask_def toggleComplete_def deleteTask_def archiveTask_def
           dest: completeNow_history)

lemma spread_id: "t_id (spread t p) = (case p_id p of None \<Rightarrow> t_id t | Some v \<Rightarrow> v)"
  by (simp add: spread_def)

lemma editTask_ids:
  "map t_id (tasks (editTask i p s))
     = map (\<lambda>x. if x = Defined i then (case p_id p of None \<Rightarrow> x | Some v \<Rightarrow> v) else x)
           (map t_id (tasks s))"
  by (simp add: editTask_def spread_id comp_def if_distrib[of t_id] cong: if_cong)

lemma deleteTask_ids:
  "map t_id (tasks (deleteTask i s)) = filter (\<lambda>x. x \<noteq> Defined i) (map t_id (tasks s))"
  by (simp add: deleteTask_def filter_map comp_def)

lemma map_if_same: "map (\<lambda>x. if x = a then a else x) xs = xs"
  by (induction xs) auto

text \<open>
  C3. When no task has the id, \<open>editTask\<close>, \<open>toggleComplete\<close>, \<open>completeNow\<close>,
  \<open>deleteTask\<close> and \<open>archiveTask\<close> return the state they were given, and \<open>completeNow\<close>
  does so without throwing.
\<close>

theorem unknown_id_is_noop:
  assumes "Defined i \<notin> t_id ` set (tasks s)"
  shows "editTask i patch s = s \<and> toggleComplete i s = s
         \<and> completeNow h uuid clock i s = Inr s
         \<and> deleteTask i s = s \<and> archiveTask i s = s"
  using assms
  by (simp add: editTask_def toggleComplete_def completeNow_def deleteTask_def archiveTask_def
      map_if_absent filter_absent find_None_ids[THEN iffD2])

theorem unknown_id_is_noop_witness:
  "editTask (js ''zz'') (noPatch\<lparr>p_title := Some (Defined (js ''x''))\<rparr>) exampleState = exampleState
   \<and> toggleComplete (js ''zz'') exampleState = exampleState
   \<and> completeNow dhakaHost (js ''h2'') 1793678400000 (js ''zz'') exampleState = Inr exampleState
   \<and> deleteTask (js ''zz'') exampleState = exampleState
   \<and> archiveTask (js ''zz'') exampleState = exampleState"
proof -
  have "Defined (js ''zz'') \<notin> t_id ` set (tasks exampleState)"
    by (simp add: example_defs)
  then show ?thesis
    by (rule unknown_id_is_noop)
qed

text \<open>
  C7. \<open>deleteTask\<close> keeps exactly the tasks with another id and returns the history it
  was given. Every mutation that returns a state returns one whose history ends with
  the old history, entry for entry, so its length never decreases.
\<close>

theorem history_append_only:
  "history (deleteTask i s) = history s
   \<and> tasks (deleteTask i s) = filter (\<lambda>t. t_id t \<noteq> Defined i) (tasks s)
   \<and> Defined i \<notin> t_id ` set (tasks (deleteTask i s))
   \<and> (\<forall>m s'. mutate h m s = Inr s' \<longrightarrow>
         suffix (history s) (history s') \<and> length (history s) \<le> length (history s'))"
proof -
  have "suffix (history s) (history s') \<and> length (history s) \<le> length (history s')"
    if "mutate h m s = Inr s'" for m s'
    using mutate_history[OF that] by (auto simp: suffix_def)
  then show ?thesis
    by (auto simp: deleteTask_def)
qed

theorem history_append_only_witness:
  "history (deleteTask (js ''a1'') exampleState) = [milkDone]
   \<and> tasks (deleteTask (js ''a1'') exampleState) = [payRent, oldTask]
   \<and> mutate dhakaHost (DeleteTask (js ''a1'')) exampleState
       = Inr (exampleState\<lparr>tasks := [payRent, oldTask]\<rparr>)
   \<and> length (history exampleState) \<le> length (history (exampleState\<lparr>tasks := [payRent, oldTask]\<rparr>))"
proof -
  have run: "mutate dhakaHost (DeleteTask (js ''a1'')) exampleState
               = Inr (exampleState\<lparr>tasks := [payRent, oldTask]\<rparr>)"
    by (simp add: deleteTask_def example_defs)
  with history_append_only[of "js ''a1''" exampleState dhakaHost] show ?thesis
    by (simp add: example_defs)
qed

text \<open>
  C10. Every mutation that returns a state returns one with the settings it was given.
\<close>

theorem settings_unchanged:
  "mutate h m s = Inr s' \<Longrightarrow> settings s' = settings s"
  by (cases m)
     (auto simp: addTask_def editTask_def toggleComplete_def deleteTask_def archiveTask_def
           dest: completeNow_settings)

theorem settings_unchanged_witness:
  "mutate dhakaHost (AddTask (js ''e5'') 1793678400000 [] [] None weekly) exampleState
     = Inr (addTask (js ''e5'') 1793678400000 [] [] None weekly exampleState)
   \<and> settings (addTask (js ''e5'') 1793678400000 [] [] None weekly exampleState)
       = \<lparr>timezone = js ''Asia/Dhaka''\<rparr>"
proof -
  have run: "mutate dhakaHost (AddTask (js ''e5'') 1793678400000 [] [] None weekly) exampleState
               = Inr (addTask (js ''e5'') 1793678400000 [] [] None weekly exampleState)"
    by simp
  from settings_unchanged[OF run] run show ?thesis
    by (simp add: exampleState_def)
qed

text \<open>
  C9, as the code has it. \<open>editTask\<close> merges whatever the patch holds, the id
  included: with \<open>{id: "b2"}\<close> the first task of the example takes the id of the second,
  and with \<open>{id: undefined}\<close> it is left without one. \<open>addTask\<close> does not look at the
  ids in use: when \<open>uuidv4()\<close> returns the same value twice, two tasks share it.
\<close>

theorem id_changed_by_patch:
  "t_id (hd (tasks exampleState)) = Defined (js ''a1'')
   \<and> t_id (hd (tasks (editTask (js ''a1'') (noPatch\<lparr>p_id := Some (Defined (js ''b2''))\<rparr>)
                                exampleState)))
       = Defined (js ''b2'')
   \<and> distinct (map t_id (tasks exampleState))
   \<and> \<not> distinct (map t_id (tasks (editTask (js ''a1'')
                                          (noPatch\<lparr>p_id := Some (Defined (js ''b2''))\<rparr>)
                                          exampleState)))
   \<and> t_id (hd (tasks (editTask (js ''a1'') (noPatch\<lparr>p_id := Some Undefined\<rparr>) exampleState)))
       = Undefined
   \<and> distinct (map t_id (tasks (addTask (js ''9b1deb4d-3b7d-4bad-9bdf-2b0d7b3dcb6d'')
                                        1793678400000 (js ''Call Ma'') [] None none
                                        (freshState (js ''Asia/Dhaka'')))))
   \<and> \<not> distinct (map t_id (tasks (addTask (js ''9b1deb4d-3b7d-4bad-9bdf-2b0d7b3dcb6d'')
                                          1793678460000 (js ''Post letter'') [] None none
                                 (addTask (js ''9b1deb4d-3b7d-4bad-9bdf-2b0d7b3dcb6d'')
                                          1793678400000 (js ''Call Ma'') [] None none
                                          (freshState (js ''Asia/Dhaka''))))))"
  by (simp add: editTask_def spread_def noPatch_def addTask_def freshState_def example_defs)

text \<open>
  C9, amended. The ids of the tasks after each operation, in order:
  \<^item> \<open>addTask\<close> puts the value \<open>uuidv4()\<close> returned in front of the old ids;
  \<^item> \<open>editTask\<close> replaces the id it selects by what the patch holds under \<open>id\<close>
    (\<open>undefined\<close> included) and keeps every id when the patch has no such key;
  \<^item> \<open>deleteTask\<close> removes the id it selects;
  \<^item> \<open>toggleComplete\<close>, \<open>completeNow\<close> and \<open>archiveTask\<close> keep every id.

  Hence ids that are distinct stay distinct under every operation other than \<open>addTask\<close>
  and an \<open>editTask\<close> whose patch holds another id; after \<open>addTask\<close> they are distinct
  exactly when they were and the new value is not in use.
\<close>

theorem ids_after_mutation:
  "map t_id (tasks (addTask uuid clock ttl nts du rec s)) = Defined uuid # map t_id (tasks s)
   \<and> map t_id (tasks (editTask i patch s))
       = map (\<lambda>x. if x = Defined i then (case p_id patch of None \<Rightarrow> x | Some v \<Rightarrow> v) else x)
             (map t_id (tasks s))
   \<and> map t_id (tasks (toggleComplete i s)) = map t_id (tasks s)
   \<and> (\<forall>s'. completeNow h uuid clock i s = Inr s' \<longrightarrow> map t_id (tasks s') = map t_id (tasks s))
   \<and> map t_id (tasks (deleteTask i s)) = filter (\<lambda>x. x \<noteq> Defined i) (map t_id (tasks s))
   \<and> map t_id (tasks (archiveTask i s)) = map t_id (tasks s)
   \<and> (distinct (map t_id (tasks (addTask uuid clock ttl nts du rec s)))
        \<longleftrightarrow> Defined uuid \<notin> t_id ` set (tasks s) \<and> distinct (map t_id (tasks s)))
   \<and> (distinct (map t_id (tasks s)) \<longrightarrow>
        (p_id patch = None \<or> p_id patch = Some (Defined i)
           \<longrightarrow> distinct (map t_id (tasks (editTask i patch s))))
        \<and> distinct (map t_id (tasks (toggleComplete i s)))
        \<and> (\<forall>s'. completeNow h uuid clock i s = Inr s' \<longrightarrow> distinct (map t_id (tasks s')))
        \<and> distinct (map t_id (tasks (deleteTask i s)))
        \<and> distinct (map t_id (tasks (archiveTask i s))))"
proof -
  let ?ids = "map t_id (tasks s)"
  have add: "map t_id (tasks (addTask uuid clock ttl nts du rec s)) = Defined uuid # ?ids"
    by (simp add: addTask_def)
  have toggle: "map t_id (tasks (toggleComplete i s)) = ?ids"
    by (simp add: toggleComplete_def comp_def if_distrib[of t_id] cong: if_cong)
  have archive: "map t_id (tasks (archiveTask i s)) = ?ids"
    by (simp add: archiveTask_def editTask_ids noPatch_def)
  have complete: "\<forall>s'. completeNow h uuid clock i s = Inr s' \<longrightarrow> map t_id (tasks s') = ?ids"
    by (simp add: completeNow_tasks_ids)
  have edit: "map t_id (tasks (editTask i patch s)) = ?ids"
    if "p_id patch = None \<or> p_id patch = Some (Defined i)"
    using that by (auto simp: editTask_ids map_if_same)
  have fresh: "distinct (map t_id (tasks (addTask uuid clock ttl nts du rec s)))
                 \<longleftrightarrow> Defined uuid \<notin> t_id ` set (tasks s) \<and> distinct ?ids"
    by (simp add: add)
  have kept: "distinct ?ids \<longrightarrow>
        (p_id patch = None \<or> p_id patch = Some (Defined i)
           \<longrightarrow> distinct (map t_id (tasks (editTask i patch s))))
        \<and> distinct (map t_id (tasks (toggleComplete i s)))
        \<and> (\<forall>s'. completeNow h uuid clock i s = Inr s' \<longrightarrow> distinct (map t_id (tasks s')))
        \<and> distinct (map t_id (tasks (deleteTask i s)))
        \<and> distinct (map t_id (tasks (archiveTask i s)))"
  proof
    assume d: "distinct ?ids"
    have "distinct (map t_id (tasks s'))" if "completeNow h uuid clock i s = Inr s'" for s'
      using d completeNow_tasks_ids[OF that] by simp
    moreover have "distinct (map t_id (tasks (editTask i patch s)))"
      if "p_id patch = None \<or> p_id patch = Some (Defined i)"
      using d edit[OF that] by simp
    moreover have "distinct (map t_id (tasks (deleteTask i s)))"
      using d by (simp add: deleteTask_ids)
    ultimately show "(p_id patch = None \<or> p_id patch = Some (Defined i)
           \<longrightarrow> distinct (map t_id (tasks (editTask i patch s))))
        \<and> distinct (map t_id (tasks (toggleComplete i s)))
        \<and> (\<forall>s'. completeNow h uuid clock i s = Inr s' \<longrightarrow> distinct (map t_id (tasks s')))
        \<and> distinct (map t_id (tasks (deleteTask i s)))
        \<and> distinct (map t_id (tasks (archiveTask i s)))"
      using d by (simp add: toggle archive)
  qed
  from add editTask_ids[of i patch s] toggle complete deleteTask_ids[of i s] archive fresh kept
  show ?thesis
    by (intro conjI)
qed

theorem ids_after_mutation_witness:
  "map t_id (tasks (editTask (js ''a1'') (noPatch\<lparr>p_title := Some (Defined (js ''Buy oat milk''))\<rparr>)
                             exampleState))
     = [Defined (js ''a1''), Defined (js ''b2''), Defined (js ''c3'')]
   \<and> distinct (map t_id (tasks (editTask (js ''a1'')
                                        (noPatch\<lparr>p_title := Some (Defined (js ''Buy oat milk''))\<rparr>)
                                        exampleState)))
   \<and> completeNow dhakaHost (js ''h2'') 1793678400000 (js ''a1'') exampleState
       = Inr (exampleState\<lparr>tasks := [buyMilk\<lparr>completed := Defined True\<rparr>, payRent, oldTask],
                            history := [\<lparr>h_id = js ''h2'', taskId = js ''a1'',
                                         h_title = Defined (js ''Buy milk''),
                                         at = nowISO 1793678400000\<rparr>, milkDone]\<rparr>)
   \<and> map t_id (tasks (exampleState\<lparr>tasks := [buyMilk\<lparr>completed := Defined True\<rparr>, payRent, oldTask],
                            history := [\<lparr>h_id = js ''h2'', taskId = js ''a1'',
                                         h_title = Defined (js ''Buy milk''),
                                         at = nowISO 1793678400000\<rparr>, milkDone]\<rparr>))
       = [Defined (js ''a1''), Defined (js ''b2''), Defined (js ''c3'')]"
proof -
  let ?p = "noPatch\<lparr>p_title := Some (Defined (js ''Buy oat milk''))\<rparr>"
  let ?s' = "exampleState\<lparr>tasks := [buyMilk\<lparr>completed := Defined True\<rparr>, payRent, oldTask],
                            history := [\<lparr>h_id = js ''h2'', taskId = js ''a1'',
                                         h_title = Defined (js ''Buy milk''),
                                         at = nowISO 1793678400000\<rparr>, milkDone]\<rparr>"
  have run: "completeNow dhakaHost (js ''h2'') 1793678400000 (js ''a1'') exampleState = Inr ?s'"
    by (simp add: completeNow_def recurringRule_def Let_def example_defs)
  have key: "p_id ?p = None"
    by (simp add: noPatch_def)
  have d: "distinct (map t_id (tasks exampleState))"
    by (simp add: example_defs)
  have ids: "map t_id (tasks exampleState) = [Defined (js ''a1''), Defined (js ''b2''), Defined (js ''c3'')]"
    by (simp add: example_defs)
  from ids_after_mutation[where s = exampleState and i = "js ''a1''" and patch = ?p
                             and h = dhakaHost and uuid = "js ''h2''" and clock = 1793678400000]
  have "map t_id (tasks (editTask (js ''a1'') ?p exampleState))
          = map (\<lambda>x. if x = Defined (js ''a1'') then (case p_id ?p of None \<Rightarrow> x | Some v \<Rightarrow> v) else x)
                (map t_id (tasks exampleState))"
    and "distinct (map t_id (tasks (editTask (js ''a1'') ?p exampleState)))"
    and "map t_id (tasks ?s') = map t_id (tasks exampleState)"
    using d key run by blast+
  then show ?thesis
    using run by (simp only: key ids) simp
qed

section \<open>The recurrence step (C2)\<close>



subsection \<open>Evaluating dates\<close>

text \<open>
  A time value is evaluated by writing it as \<open>MakeDate (MakeDay y m d) tod\<close>, from which
  \<open>MakeDay_fields\<close> and \<open>ISOString_MakeDate\<close> read the fields and the ISO string.
\<close>

lemmas day_defs = MakeDate_def MakeDay_def DayFromYear_def DaysBeforeMonth_def DaysInMonth_def
  DaysInYear_def msPerDay_def Let_def

lemmas iso_defs = isoYear_def pad2_def pad3_def pad4_def pad6_def digit_def js_def HourFromTime_def
  MinFromTime_def SecFromTime_def msFromTime_def msPerHour_def msPerMinute_def msPerSecond_def
  msPerDay_def DaysInMonth_def DaysInYear_def







lemma lastInstant: "8640000000000000 = MakeDate (MakeDay 275760 8 13) 0"
  by (simp add: day_defs)

lemma lastInstant_fields:
  "YearFromTime 8640000000000000 = 275760" "MonthFromTime 8640000000000000 = 8"
  "DateFromTime 8640000000000000 = 13" "TimeWithinDay 8640000000000000 = 0"
  by (subst lastInstant, simp add: MakeDay_fields DaysInMonth_def msPerDay_def)+
















section \<open>Completing a task (C1)\<close>




lemma find_Some_id: "find (\<lambda>x. t_id x = i) ts = Some t \<Longrightarrow> t_id t = i \<and> t \<in> set ts"
  by (auto simp: find_Some_iff)




lemma recurringRule_update [simp]:
  "recurringRule (t\<lparr>nextDue := n\<rparr>) = recurringRule t"
  "recurringRule (t\<lparr>completed := c\<rparr>) = recurringRule t"
  by (simp_all add: recurringRule_def)



lemma nov3: "1793678400000 = MakeDate (MakeDay 2026 10 3) 14400000"
  by (simp add: day_defs)

lemma nov3_iso: "ISOString 1793678400000 = js ''2026-11-03T04:00:00.000Z''"
  by (subst nov3) (simp add: ISOString_MakeDate iso_defs)

















section \<open>Search and filter (C5)\<close>


lemma includes_js_empty [simp]: "includes_js s []"
  by (cases s) simp_all





section \<open>Completions per task (C6)\<close>

lemma proto_key: "js ''__proto__'' \<in> set ObjectPrototypeKeys"
  by (simp add: ObjectPrototypeKeys_def)

lemma tally_other: "taskId hi \<noteq> k \<Longrightarrow> getProp (tally m hi) k = getProp m k"
  by (simp add: tally_def setProp_def getProp_def)

lemma tally_counts:
  assumes "k \<notin> set ObjectPrototypeKeys" "orZero (getProp m k) = Number j"
  shows "orZero (getProp (foldl tally m hist) k)
           = Number (j + length (filter (\<lambda>hi. taskId hi = k) hist))"
  using assms(2)
proof (induction hist arbitrary: m j)
  case Nil
  then show ?case by simp
next
  case (Cons hi hist)
  have k: "k \<noteq> js ''__proto__''"
    using assms(1) proto_key by auto
  show ?case
  proof (cases "taskId hi = k")
    case True
    have "orZero (getProp (tally m hi) k) = Number (j + 1)"
      using Cons.prems assms(1) k True
      by (auto simp: tally_def setProp_def getProp_def orZero_def orZeroPlusOne_def
          split: option.splits countValue.splits)
    from Cons.IH[OF this] True show ?thesis
      by simp
  next
    case False
    then have "orZero (getProp (tally m hi) k) = Number j"
      using Cons.prems by (simp add: tally_other)
    from Cons.IH[OF this] False show ?thesis
      by simp
  qed
qed

lemma tally_prototype:
  assumes "k \<in> set ObjectPrototypeKeys" "m k = None \<or> m k = Some NotNumber"
  shows "orZero (getProp (foldl tally m hist) k) = NotNumber"
  using assms(2)
proof (induction hist arbitrary: m)
  case Nil
  then show ?case
    using assms(1) by (auto simp: getProp_def orZero_def)
next
  case (Cons hi hist)
  have "tally m hi k = None \<or> tally m hi k = Some NotNumber"
    using Cons.prems assms(1)
    by (auto simp: tally_def setProp_def getProp_def orZeroPlusOne_def)
  from Cons.IH[of "tally m hi", OF this] show ?case
    by simp
qed

text \<open>
  What \<open>completionsPerTask\<close> computes: one entry per task, in the order of \<open>tasks\<close>. The
  count is the number of history entries whose \<open>taskId\<close> is the task's id as a property
  key, unless that key names a property of \<open>Object.prototype\<close>: then the count is not a
  number, whatever the history holds.
\<close>

lemma completionsPerTask_closed:
  "completionsPerTask hist ts =
     map (\<lambda>t. \<lparr>c_title = title t, c_id = t_id t,
                c_count = (if propertyKey (t_id t) \<in> set ObjectPrototypeKeys then NotNumber
                           else Number (length (filter (\<lambda>hi. taskId hi = propertyKey (t_id t))
                                                       hist)))\<rparr>) ts"
proof -
  have "orZero (getProp (foldl tally Map.empty hist) k)
          = (if k \<in> set ObjectPrototypeKeys then NotNumber
             else Number (length (filter (\<lambda>hi. taskId hi = k) hist)))" for k
    using tally_prototype[of k Map.empty hist] tally_counts[of k Map.empty 0 hist]
    by (simp add: getProp_def orZero_def)
  then show ?thesis
    by (simp add: completionsPerTask_def)
qed


section \<open>Completions per day (C4)\<close>

subsection \<open>The fourteen days before 10:00 on November 3, 2026 in Dhaka\<close>

lemma dhaka_midnight: "setHours dhakaHost (Some 1793678400000) 0 0 0 0 = Some 1793642400000"
  by (simp add: setHours_def LocalTime_def UTC_def DaylightSavingTA_def dhakaHost_def Day_def
      MakeDate_def MakeTime_def TimeClip_def msPerDay_def)

lemma dhaka_days_back:
  "setDate dhakaHost (Some 1793642400000)
     (map_option (\<lambda>k. k - int i) (getDate dhakaHost (Some 1793642400000)))
   = TimeClip (1793642400000 - int i * 86400000)"
proof -
  have "(\<lambda>k. k - int i) = (\<lambda>n. n + (- int i))"
    by auto
  then show ?thesis
    by (simp only: setDate_plus)
       (simp add: LocalTime_def UTC_def DaylightSavingTA_def dhakaHost_def Day_def
          TimeWithinDay_def MakeDate_def msPerDay_def algebra_simps)
qed

lemma fourteen: "rev [0..<14] = [13, 12, 11, 10, 9, 8, 7, 6, 5, 4, 3, 2, 1, 0::nat]"
  by code_simp

lemma dhaka_window:
  "lastNDays dhakaHost 1793678400000 14 =
     map Some [1792519200000, 1792605600000, 1792692000000, 1792778400000, 1792864800000, 1792951200000, 1793037600000, 1793124000000, 1793210400000, 1793296800000, 1793383200000, 1793469600000, 1793556000000, 1793642400000]"
  unfolding lastNDays_def Let_def dhaka_midnight dhaka_days_back fourteen
  by (simp add: TimeClip_def)

lemma window_instants:
  "1792519200000 = MakeDate (MakeDay 2026 9 20) 64800000"
  "1792605600000 = MakeDate (MakeDay 2026 9 21) 64800000"
  "1792692000000 = MakeDate (MakeDay 2026 9 22) 64800000"
  "1792778400000 = MakeDate (MakeDay 2026 9 23) 64800000"
  "1792864800000 = MakeDate (MakeDay 2026 9 24) 64800000"
  "1792951200000 = MakeDate (MakeDay 2026 9 25) 64800000"
  "1793037600000 = MakeDate (MakeDay 2026 9 26) 64800000"
  "1793124000000 = MakeDate (MakeDay 2026 9 27) 64800000"
  "1793210400000 = MakeDate (MakeDay 2026 9 28) 64800000"
  "1793296800000 = MakeDate (MakeDay 2026 9 29) 64800000"
  "1793383200000 = MakeDate (MakeDay 2026 9 30) 64800000"
  "1793469600000 = MakeDate (MakeDay 2026 9 31) 64800000"
  "1793556000000 = MakeDate (MakeDay 2026 10 1) 64800000"
  "1793642400000 = MakeDate (MakeDay 2026 10 2) 64800000"
  by (simp_all add: day_defs)

lemma window_local:
  "1792540800000 = MakeDate (MakeDay 2026 9 21) 0"
  "1792627200000 = MakeDate (MakeDay 2026 9 22) 0"
  "1792713600000 = MakeDate (MakeDay 2026 9 23) 0"
  "1792800000000 = MakeDate (MakeDay 2026 9 24) 0"
  "1792886400000 = MakeDate (MakeDay 2026 9 25) 0"
  "1792972800000 = MakeDate (MakeDay 2026 9 26) 0"
  "1793059200000 = MakeDate (MakeDay 2026 9 27) 0"
  "1793145600000 = MakeDate (MakeDay 2026 9 28) 0"
  "1793232000000 = MakeDate (MakeDay 2026 9 29) 0"
  "1793318400000 = MakeDate (MakeDay 2026 9 30) 0"
  "1793404800000 = MakeDate (MakeDay 2026 9 31) 0"
  "1793491200000 = MakeDate (MakeDay 2026 10 1) 0"
  "1793577600000 = MakeDate (MakeDay 2026 10 2) 0"
  "1793664000000 = MakeDate (MakeDay 2026 10 3) 0"
  by (simp_all add: day_defs)

lemma window_keys:
  "slice (ISOString 1792519200000) 0 10 = js ''2026-10-20''"
  "slice (ISOString 1792605600000) 0 10 = js ''2026-10-21''"
  "slice (ISOString 1792692000000) 0 10 = js ''2026-10-22''"
  "slice (ISOString 1792778400000) 0 10 = js ''2026-10-23''"
  "slice (ISOString 1792864800000) 0 10 = js ''2026-10-24''"
  "slice (ISOString 1792951200000) 0 10 = js ''2026-10-25''"
  "slice (ISOString 1793037600000) 0 10 = js ''2026-10-26''"
  "slice (ISOString 1793124000000) 0 10 = js ''2026-10-27''"
  "slice (ISOString 1793210400000) 0 10 = js ''2026-10-28''"
  "slice (ISOString 1793296800000) 0 10 = js ''2026-10-29''"
  "slice (ISOString 1793383200000) 0 10 = js ''2026-10-30''"
  "slice (ISOString 1793469600000) 0 10 = js ''2026-10-31''"
  "slice (ISOString 1793556000000) 0 10 = js ''2026-11-01''"
  "slice (ISOString 1793642400000) 0 10 = js ''2026-11-02''"
  by (simp_all only: window_instants)
     (simp_all add: ISOString_MakeDate slice_def iso_defs)

lemma window_labels:
  "usDate 1792540800000 = js ''10/21/2026''"
  "usDate 1792627200000 = js ''10/22/2026''"
  "usDate 1792713600000 = js ''10/23/2026''"
  "usDate 1792800000000 = js ''10/24/2026''"
  "usDate 1792886400000 = js ''10/25/2026''"
  "usDate 1792972800000 = js ''10/26/2026''"
  "usDate 1793059200000 = js ''10/27/2026''"
  "usDate 1793145600000 = js ''10/28/2026''"
  "usDate 1793232000000 = js ''10/29/2026''"
  "usDate 1793318400000 = js ''10/30/2026''"
  "usDate 1793404800000 = js ''10/31/2026''"
  "usDate 1793491200000 = js ''11/1/2026''"
  "usDate 1793577600000 = js ''11/2/2026''"
  "usDate 1793664000000 = js ''11/3/2026''"
  by (simp_all only: window_local)
     (simp_all add: usDate_def short_def MakeDay_fields iso_defs)

lemma dhaka_buckets:
  "emptyBuckets dhakaHost (map Some [1792519200000, 1792605600000, 1792692000000, 1792778400000, 1792864800000, 1792951200000, 1793037600000, 1793124000000, 1793210400000, 1793296800000, 1793383200000, 1793469600000, 1793556000000, 1793642400000])
     = Inr [\<lparr>date = js ''2026-10-20'', label = js ''10/21/2026'', count = 0\<rparr>,
          \<lparr>date = js ''2026-10-21'', label = js ''10/22/2026'', count = 0\<rparr>,
          \<lparr>date = js ''2026-10-22'', label = js ''10/23/2026'', count = 0\<rparr>,
          \<lparr>date = js ''2026-10-23'', label = js ''10/24/2026'', count = 0\<rparr>,
          \<lparr>date = js ''2026-10-24'', label = js ''10/25/2026'', count = 0\<rparr>,
          \<lparr>date = js ''2026-10-25'', label = js ''10/26/2026'', count = 0\<rparr>,
          \<lparr>date = js ''2026-10-26'', label = js ''10/27/2026'', count = 0\<rparr>,
          \<lparr>date = js ''2026-10-27'', label = js ''10/28/2026'', count = 0\<rparr>,
          \<lparr>date = js ''2026-10-28'', label = js ''10/29/2026'', count = 0\<rparr>,
          \<lparr>date = js ''2026-10-29'', label = js ''10/30/2026'', count = 0\<rparr>,
          \<lparr>date = js ''2026-10-30'', label = js ''10/31/2026'', count = 0\<rparr>,
          \<lparr>date = js ''2026-10-31'', label = js ''11/1/2026'', count = 0\<rparr>,
          \<lparr>date = js ''2026-11-01'', label = js ''11/2/2026'', count = 0\<rparr>,
          \<lparr>date = js ''2026-11-02'', label = js ''11/3/2026'', count = 0\<rparr>]"
  by (simp add: toISOString_def Date_toLocaleDateString_def window_keys)
     (simp add: dhakaHost_def window_labels)

text \<open>
  C4 at a failing input: the zone is Asia/Dhaka (UTC+6), the clock reads 04:00 UTC on
  November 3, 2026, which is 10:00 there, and the history holds one completion, made at
  that moment. Each bucket is labelled with a local date, October 21 to November 3, but
  keyed by the UTC date of its local midnight, which is the day before: October 20 to
  November 2. The completion has the key \<open>2026-11-03\<close>, finds no bucket, and every count
  is 0.
\<close>

theorem completedByDay_dhaka:
  "at milkDone = nowISO 1793678400000
   \<and> slice (at milkDone) 0 10 = js ''2026-11-03''
   \<and> completedByDay dhakaHost 1793678400000 [milkDone]
       = Inr [\<lparr>date = js ''2026-10-20'', label = js ''10/21/2026'', count = 0\<rparr>,
          \<lparr>date = js ''2026-10-21'', label = js ''10/22/2026'', count = 0\<rparr>,
          \<lparr>date = js ''2026-10-22'', label = js ''10/23/2026'', count = 0\<rparr>,
          \<lparr>date = js ''2026-10-23'', label = js ''10/24/2026'', count = 0\<rparr>,
          \<lparr>date = js ''2026-10-24'', label = js ''10/25/2026'', count = 0\<rparr>,
          \<lparr>date = js ''2026-10-25'', label = js ''10/26/2026'', count = 0\<rparr>,
          \<lparr>date = js ''2026-10-26'', label = js ''10/27/2026'', count = 0\<rparr>,
          \<lparr>date = js ''2026-10-27'', label = js ''10/28/2026'', count = 0\<rparr>,
          \<lparr>date = js ''2026-10-28'', label = js ''10/29/2026'', count = 0\<rparr>,
          \<lparr>date = js ''2026-10-29'', label = js ''10/30/2026'', count = 0\<rparr>,
          \<lparr>date = js ''2026-10-30'', label = js ''10/31/2026'', count = 0\<rparr>,
          \<lparr>date = js ''2026-10-31'', label = js ''11/1/2026'', count = 0\<rparr>,
          \<lparr>date = js ''2026-11-01'', label = js ''11/2/2026'', count = 0\<rparr>,
          \<lparr>date = js ''2026-11-02'', label = js ''11/3/2026'', count = 0\<rparr>]"
proof -
  have a: "at milkDone = nowISO 1793678400000"
    unfolding nowISO_def nov3_iso by (simp add: milkDone_def)
  have k: "slice (at milkDone) 0 10 = js ''2026-11-03''"
    by (simp add: milkDone_def slice_def js_def)
  have "completedByDay dhakaHost 1793678400000 [milkDone]
       = Inr [\<lparr>date = js ''2026-10-20'', label = js ''10/21/2026'', count = 0\<rparr>,
          \<lparr>date = js ''2026-10-21'', label = js ''10/22/2026'', count = 0\<rparr>,
          \<lparr>date = js ''2026-10-22'', label = js ''10/23/2026'', count = 0\<rparr>,
          \<lparr>date = js ''2026-10-23'', label = js ''10/24/2026'', count = 0\<rparr>,
          \<lparr>date = js ''2026-10-24'', label = js ''10/25/2026'', count = 0\<rparr>,
          \<lparr>date = js ''2026-10-25'', label = js ''10/26/2026'', count = 0\<rparr>,
          \<lparr>date = js ''2026-10-26'', label = js ''10/27/2026'', count = 0\<rparr>,
          \<lparr>date = js ''2026-10-27'', label = js ''10/28/2026'', count = 0\<rparr>,
          \<lparr>date = js ''2026-10-28'', label = js ''10/29/2026'', count = 0\<rparr>,
          \<lparr>date = js ''2026-10-29'', label = js ''10/30/2026'', count = 0\<rparr>,
          \<lparr>date = js ''2026-10-30'', label = js ''10/31/2026'', count = 0\<rparr>,
          \<lparr>date = js ''2026-10-31'', label = js ''11/1/2026'', count = 0\<rparr>,
          \<lparr>date = js ''2026-11-01'', label = js ''11/2/2026'', count = 0\<rparr>,
          \<lparr>date = js ''2026-11-02'', label = js ''11/3/2026'', count = 0\<rparr>]"
    unfolding completedByDay_def dhaka_window dhaka_buckets
    by (simp add: countEntry_def k Let_def) (simp add: js_def)
  with a k show ?thesis
    by simp
qed

section \<open>Saving and loading (C8)\<close>

subsection \<open>String literals\<close>

lemma hexValue_hexDigit: "hexValue (hexDigit n) = Some (n mod 16)"
proof -
  define k where "k = n mod 16"
  have "k < 16" by (simp add: k_def)
  then have "k = 0 \<or> k = 1 \<or> k = 2 \<or> k = 3 \<or> k = 4 \<or> k = 5 \<or> k = 6 \<or> k = 7 \<or> k = 8
              \<or> k = 9 \<or> k = 10 \<or> k = 11 \<or> k = 12 \<or> k = 13 \<or> k = 14 \<or> k = 15"
    by presburger
  then have "hexValue (if k < 10 then of_nat (48 + k) else of_nat (87 + k)) = Some k"
    by (elim disjE) (simp_all add: hexValue_def)
  then show ?thesis
    unfolding hexDigit_def k_def .
qed

lemma hex_digits:
  fixes n :: nat
  assumes "n < 65536"
  shows "(((n div 4096) mod 16 * 16 + (n div 256) mod 16) * 16 + (n div 16) mod 16) * 16 + n mod 16 = n"
proof -
  define a where "a = n div 16"
  define b where "b = a div 16"
  define c where "c = b div 16"
  have 1: "n div 256 = b" "n div 4096 = c"
    by (simp_all add: a_def b_def c_def div_mult2_eq)
  have "c < 16"
    using assms unfolding 1(2)[symmetric] by simp
  then have c: "c mod 16 = c" by simp
  have n: "n = a * 16 + n mod 16" by (simp add: a_def)
  have a: "a = b * 16 + a mod 16" by (simp add: b_def)
  have b: "b = c * 16 + b mod 16" by (simp add: c_def)
  have "((c * 16 + b mod 16) * 16 + a mod 16) * 16 + n mod 16 = n"
    using n a b by simp
  then show ?thesis
    by (simp add: 1 c a_def[symmetric])
qed

lemma hex4_escape:
  "hex4 (hexDigit (unat c div 4096)) (hexDigit (unat c div 256)) (hexDigit (unat c div 16))
        (hexDigit (unat c)) = Some c"
proof -
  have "unat c < 65536"
    using unsigned_less[of c, where 'a = nat] by simp
  note e = hex_digits[OF this]
  have "hex4 (hexDigit (unat c div 4096)) (hexDigit (unat c div 256)) (hexDigit (unat c div 16))
          (hexDigit (unat c))
        = Some (of_nat ((((unat c div 4096) mod 16 * 16 + (unat c div 256) mod 16) * 16
                          + (unat c div 16) mod 16) * 16 + unat c mod 16))"
    by (simp only: hex4_def hexValue_hexDigit prod.case option.case)
  also have "\<dots> = Some (of_nat (unat c))"
    by (simp only: e)
  also have "\<dots> = Some c"
    by simp
  finally show ?thesis .
qed

lemma parse_chars_escape: "parse_chars (UnicodeEscape c @ r) = consUnit c (parse_chars r)"
  by (simp add: UnicodeEscape_def hex4_escape)

lemma parse_chars_raw:
  "\<not> c < 0x20 \<Longrightarrow> c \<noteq> 0x22 \<Longrightarrow> c \<noteq> 0x5C \<Longrightarrow> parse_chars (c # r) = consUnit c (parse_chars r)"
  by simp

lemma parse_chars_quoteUnit: "parse_chars (quoteUnit c @ r) = consUnit c (parse_chars r)"
  by (simp add: quoteUnit_def parse_chars_escape unescape_def)

lemma surrogate_raw:
  "isLeadingSurrogate c \<or> isTrailingSurrogate c \<Longrightarrow> \<not> c < 0x20 \<and> c \<noteq> 0x22 \<and> c \<noteq> 0x5C"
  by (auto simp: isLeadingSurrogate_def isTrailingSurrogate_def word_le_nat_alt word_less_nat_alt)

lemma parse_chars_quoteUnits:
  "parse_chars (quoteUnits s @ 0x22 # rest) = Some (s, rest)"
proof (induction s rule: quoteUnits.induct)
  case 1
  then show ?case by simp
next
  case (2 c)
  then show ?case
    by (simp add: parse_chars_escape parse_chars_quoteUnit consUnit_def)
next
  case (3 c d cs)
  then show ?case
    using surrogate_raw[of c] surrogate_raw[of d]
    by (simp add: parse_chars_escape parse_chars_quoteUnit parse_chars_raw consUnit_def
        del: parse_chars.simps)
qed

subsection \<open>One step of the parser on the text \<open>stringify\<close> writes\<close>

lemma skip_ws_opens: "opens c \<Longrightarrow> skip_ws (c # t) = c # t"
  by (auto simp: skip_ws_def isWhiteSpace_def opens_def)

lemma skip_ws_mark [simp]:
  "skip_ws (0x5D # t) = 0x5D # t" "skip_ws (0x7D # t) = 0x7D # t" "skip_ws (0x2C # t) = 0x2C # t"
  "skip_ws (0x3A # t) = 0x3A # t" "skip_ws (0x22 # t) = 0x22 # t" "skip_ws [] = []"
  by (simp_all add: skip_ws_def isWhiteSpace_def)

lemma stringify_opens: "storable v \<Longrightarrow> \<exists>c t. stringify v = c # t \<and> opens c"
  by (cases v) (simp_all add: opens_def js_def QuoteJSONString_def)

lemma members_open: "stringify_members ps \<noteq> [] \<Longrightarrow> \<exists>t. stringify_members ps = 0x22 # t"
  by (induction ps) (auto simp: QuoteJSONString_def split: if_splits)

lemma members_empty: "stringify_members ps = [] \<Longrightarrow> defined_members ps = []"
  by (induction ps) (simp_all add: QuoteJSONString_def split: if_splits)

lemma elements_open:
  "storable_elements vs \<Longrightarrow> vs \<noteq> [] \<Longrightarrow> \<exists>c t. stringify_elements vs = c # t \<and> opens c"
proof (cases vs)
  case Nil
  then show "vs \<noteq> [] \<Longrightarrow> ?thesis" by simp
next
  case (Cons v ws)
  assume "storable_elements vs"
  with Cons obtain c t where "stringify v = c # t" "opens c"
    using stringify_opens[of v] by auto
  with Cons show ?thesis
    by simp
qed

lemma pv_string: "parse_value (Suc n) (QuoteJSONString s @ rest) = Some (JString s, rest)"
  by (simp add: QuoteJSONString_def parse_chars_quoteUnits)

lemma pv_words:
  "parse_value (Suc n) (js ''null'' @ rest) = Some (JNull, rest)"
  "parse_value (Suc n) (js ''true'' @ rest) = Some (JBool True, rest)"
  "parse_value (Suc n) (js ''false'' @ rest) = Some (JBool False, rest)"
  by (simp_all add: js_def skip_ws_def isWhiteSpace_def)

lemma pv_array_empty: "parse_value (Suc n) (js ''['' @ 0x5D # rest) = Some (JArray [], rest)"
  by (simp add: js_def skip_ws_def isWhiteSpace_def)

lemma pv_array:
  assumes "opens c"
  shows "parse_value (Suc n) (js ''['' @ c # t) =
           (case parse_elements n (c # t) of None \<Rightarrow> None | Some (vs, rest) \<Rightarrow> Some (JArray vs, rest))"
proof -
  have "c \<noteq> 0x5D"
    using assms by (auto simp: opens_def)
  moreover have "skip_ws (0x5B # c # t) = 0x5B # c # t"
    by (simp add: skip_ws_def isWhiteSpace_def)
  ultimately show ?thesis
    by (simp add: js_def skip_ws_opens[OF assms])
qed

lemma pv_object_empty: "parse_value (Suc n) (js ''{'' @ 0x7D # rest) = Some (JObject [], rest)"
  by (simp add: js_def skip_ws_def isWhiteSpace_def)

lemma pv_object:
  "parse_value (Suc n) (js ''{'' @ 0x22 # t) =
     (case parse_members n (0x22 # t) of
        None \<Rightarrow> None
      | Some (ms, rest) \<Rightarrow> Some (JObject (foldl (\<lambda>ps m. setMember ps (fst m) (snd m)) [] ms), rest))"
proof -
  have "skip_ws (0x7B # 0x22 # t) = 0x7B # 0x22 # t"
    by (simp add: skip_ws_def isWhiteSpace_def)
  then show ?thesis
    by (simp add: js_def)
qed

lemma pe_last:
  "parse_value n s = Some (v, 0x5D # rest) \<Longrightarrow> parse_elements (Suc n) s = Some ([v], rest)"
  by simp

lemma pe_more:
  "parse_value n s = Some (v, 0x2C # r) \<Longrightarrow>
   parse_elements (Suc n) s =
     (case parse_elements n r of None \<Rightarrow> None | Some (vs, rest) \<Rightarrow> Some (v # vs, rest))"
  by simp

lemma pm_last:
  "parse_value n r2 = Some (v, 0x7D # rest) \<Longrightarrow>
   parse_members (Suc n) (QuoteJSONString k @ js '':'' @ r2) = Some ([(k, v)], rest)"
  by (simp add: QuoteJSONString_def parse_chars_quoteUnits js_def)

lemma pm_more:
  "parse_value n r2 = Some (v, 0x2C # r) \<Longrightarrow>
   parse_members (Suc n) (QuoteJSONString k @ js '':'' @ r2) =
     (case parse_members n r of None \<Rightarrow> None | Some (ms, rest) \<Rightarrow> Some ((k, v) # ms, rest))"
  by (simp add: QuoteJSONString_def parse_chars_quoteUnits js_def)

lemma setMember_new: "k \<notin> fst ` set ps \<Longrightarrow> setMember ps k v = ps @ [(k, v)]"
  by (induction ps) auto

lemma foldl_setMember_distinct:
  "distinct (map fst (acc @ ms)) \<Longrightarrow>
   foldl (\<lambda>ps m. setMember ps (fst m) (snd m)) acc ms = acc @ ms"
proof (induction ms arbitrary: acc)
  case Nil
  then show ?case by simp
next
  case (Cons m ms)
  have "fst m \<notin> fst ` set acc"
    using Cons.prems by auto
  then have "setMember acc (fst m) (snd m) = acc @ [m]"
    by (simp add: setMember_new)
  moreover have "distinct (map fst ((acc @ [m]) @ ms))"
    using Cons.prems by simp
  ultimately show ?case
    using Cons.IH[of "acc @ [m]"] by simp
qed

lemma defined_members_keys: "set (map fst (defined_members ps)) \<subseteq> set (map fst ps)"
  by (induction ps) auto

lemma defined_members_distinct:
  "distinct (map fst ps) \<Longrightarrow> distinct (map fst (defined_members ps))"
proof (induction ps)
  case Nil
  then show ?case by simp
next
  case (Cons p ps)
  then show ?case
    using defined_members_keys[of ps] by auto
qed

lemma marks: "js '']'' = [0x5D]" "js ''}'' = [0x7D]" "js '','' = [0x2C]"
  by (simp_all add: js_def)

declare parse_value.simps [simp del] parse_elements.simps [simp del] parse_members.simps [simp del]

lemma stringify_nonempty: "storable v \<Longrightarrow> stringify v \<noteq> []"
  using stringify_opens[of v] by auto

lemma parse_stringify:
  "storable v \<Longrightarrow> length (stringify v) \<le> n \<Longrightarrow>
     parse_value n (stringify v @ rest) = Some (defined_part v, rest)"
  "storable_elements vs \<Longrightarrow> vs \<noteq> [] \<Longrightarrow> length (stringify_elements vs) < n \<Longrightarrow>
     parse_elements n (stringify_elements vs @ 0x5D # rest) = Some (defined_elements vs, rest)"
  "storable_members ps \<Longrightarrow> stringify_members ps \<noteq> [] \<Longrightarrow> length (stringify_members ps) < n \<Longrightarrow>
     parse_members n (stringify_members ps @ 0x7D # rest) = Some (defined_members ps, rest)"
proof (induction v and vs and ps arbitrary: n rest and n rest and n rest
       rule: stringify_stringify_elements_stringify_members.induct)
  case 1
  then obtain m where "n = Suc m" by (cases n) (simp_all add: js_def)
  then show ?case by (simp only: stringify.simps defined_part.simps pv_words)
next
  case 2
  then obtain m where "n = Suc m" by (cases n) (simp_all add: js_def)
  then show ?case by (simp only: stringify.simps defined_part.simps pv_words)
next
  case (3 b)
  then obtain m where "n = Suc m" by (cases n) (simp_all add: js_def split: if_splits)
  then show ?case by (cases b) (simp_all only: stringify.simps defined_part.simps pv_words if_True if_False)
next
  case (4 lit)
  then show ?case by simp
next
  case (5 s)
  then obtain m where "n = Suc m" by (cases n) (simp_all add: QuoteJSONString_def)
  then show ?case by (simp only: stringify.simps defined_part.simps pv_string)
next
  case (6 vs)
  from "6.prems" obtain m where n: "n = Suc m" and m: "length (stringify_elements vs) < m"
    by (cases n) (simp_all add: js_def)
  show ?case
  proof (cases "vs = []")
    case True
    then show ?thesis
      using pv_array_empty[of m rest] by (simp add: n marks)
  next
    case False
    from "6.prems" have st: "storable_elements vs" by simp
    from elements_open[OF st False] obtain c t where ct: "stringify_elements vs = c # t" "opens c"
      by auto
    have "parse_elements m (stringify_elements vs @ 0x5D # rest) = Some (defined_elements vs, rest)"
      by (rule "6.IH"[OF st False m])
    then have "parse_elements m (c # t @ 0x5D # rest) = Some (defined_elements vs, rest)"
      by (simp add: ct)
    with pv_array[OF ct(2), of m "t @ 0x5D # rest"] show ?thesis
      by (simp add: n ct marks)
  qed
next
  case (7 ps)
  from "7.prems" obtain m where n: "n = Suc m" and m: "length (stringify_members ps) < m"
    by (cases n) (simp_all add: js_def)
  from "7.prems" have st: "storable_members ps" and d: "distinct (map fst ps)"
    by simp_all
  show ?case
  proof (cases "stringify_members ps = []")
    case True
    then show ?thesis
      using pv_object_empty[of m rest] by (simp add: n members_empty marks)
  next
    case False
    from members_open[OF False] obtain t where t: "stringify_members ps = 0x22 # t"
      by auto
    have "parse_members m (stringify_members ps @ 0x7D # rest) = Some (defined_members ps, rest)"
      by (rule "7.IH"[OF st False m])
    then have "parse_members m (0x22 # t @ 0x7D # rest) = Some (defined_members ps, rest)"
      by (simp add: t)
    moreover have "foldl (\<lambda>ps m. setMember ps (fst m) (snd m)) [] (defined_members ps)
                     = defined_members ps"
      using foldl_setMember_distinct[of "[]" "defined_members ps"] defined_members_distinct[OF d]
      by simp
    ultimately show ?thesis
      using pv_object[of m "t @ 0x7D # rest"] by (simp add: n t marks)
  qed
next
  case 8
  then show ?case by simp
next
  case (9 v vs)
  from "9.prems" obtain m where n: "n = Suc m" and m: "length (stringify_elements (v # vs)) \<le> m"
    by (cases n) simp_all
  from "9.prems" have sv: "storable v" and svs: "storable_elements vs"
    by simp_all
  have lv: "length (stringify v) \<le> m"
    using m by simp
  show ?case
  proof (cases "vs = []")
    case True
    have "parse_value m (stringify v @ 0x5D # rest) = Some (defined_part v, 0x5D # rest)"
      by (rule "9.IH"(1)[OF sv lv])
    from pe_last[OF this] True show ?thesis
      by (simp add: n)
  next
    case False
    have "parse_value m (stringify v @ 0x2C # stringify_elements vs @ 0x5D # rest)
            = Some (defined_part v, 0x2C # stringify_elements vs @ 0x5D # rest)"
      by (rule "9.IH"(1)[OF sv lv])
    note step = pe_more[OF this]
    have "length (stringify_elements vs) < m"
      using m False stringify_nonempty[OF sv] by (simp add: marks)
    from "9.IH"(2)[OF False svs False this, of rest] step False show ?thesis
      by (simp add: n marks)
  qed
next
  case 10
  then show ?case by simp
next
  case (11 p ps)
  from "11.prems" have sps: "storable_members ps" and sv: "storable (snd p)"
    by simp_all
  show ?case
  proof (cases "snd p = JUndefined")
    case True
    with "11.prems" have "stringify_members ps \<noteq> []" "length (stringify_members ps) < n"
      by simp_all
    from "11.IH"(1)[OF True sps this, of rest] True show ?thesis
      by simp
  next
    case False
    from "11.prems" False obtain m where n: "n = Suc m"
      and m: "length (stringify_members (p # ps)) \<le> m"
      by (cases n) simp_all
    have lv: "length (stringify (snd p)) \<le> m"
      using m False by simp
    show ?thesis
    proof (cases "stringify_members ps = []")
      case True
      have "parse_value m (stringify (snd p) @ 0x7D # rest) = Some (defined_part (snd p), 0x7D # rest)"
        by (rule "11.IH"(2)[OF False sv lv])
      from pm_last[OF this, of "fst p"] True False show ?thesis
        by (simp add: n members_empty marks)
    next
      case nonempty: False
      have "parse_value m (stringify (snd p) @ 0x2C # stringify_members ps @ 0x7D # rest)
              = Some (defined_part (snd p), 0x2C # stringify_members ps @ 0x7D # rest)"
        by (rule "11.IH"(2)[OF False sv lv])
      note step = pm_more[OF this, of "fst p"]
      have "length (stringify_members ps) < m"
        using m False nonempty by (simp add: marks)
      from "11.IH"(3)[OF False sps nonempty this, of rest] step False nonempty show ?thesis
        by (simp add: n marks)
    qed
  qed
qed

subsection \<open>The state is storable\<close>

lemma storable_fields [simp]:
  "storable (stringValue x)" "storable (nullableValue y)" "storable (boolValue b)"
  "storable (recurrenceValue r)"
  by (simp_all add: stringValue_def nullableValue_def boolValue_def recurrenceValue_def
      split: optional.splits option.splits)

lemma storable_taskValue [simp]: "storable (taskValue t)"
  by (simp add: taskValue_def js_def)

lemma storable_historyValue [simp]: "storable (historyValue hi)"
  by (simp add: historyValue_def js_def)

lemma storable_map: "(\<And>x. storable (f x)) \<Longrightarrow> storable_elements (map f xs)"
  by (induction xs) simp_all

lemma storable_stateValue: "storable (stateValue s)"
  by (simp add: stateValue_def storable_map) (simp add: js_def)

lemma stateValue_roundtrip:
  "JSON_parse (stringify (stateValue s)) = Some (defined_part (stateValue s))"
  using parse_stringify(1)[OF storable_stateValue, of s "length (stringify (stateValue s))" "[]"]
  by (simp add: JSON_parse_def)

lemma stateValue_text:
  "JSON_stringify (stateValue s) = Some (stringify (stateValue s))" "stringify (stateValue s) \<noteq> []"
  by (simp_all add: JSON_stringify_def stateValue_def js_def)

lemma saveState_loadState:
  assumes "saveState h s st = Inr st'"
  shows "loadState st' = defined_part (stateValue s)"
proof -
  from assms have "st' = st(STORAGE_KEY \<mapsto> stringify (stateValue s))"
    by (simp add: saveState_def setItem_def stateValue_text Let_def split: if_splits)
  then show ?thesis
    by (simp add: loadState_def getItem_def stateValue_text stateValue_roundtrip)
qed

subsection \<open>When nothing is lost\<close>

lemma defined_members_length: "length (defined_members ps) \<le> length ps"
  by (induction ps) auto

lemma defined_members_same:
  "defined_members ps = ps \<longleftrightarrow> list_all (\<lambda>p. snd p \<noteq> JUndefined \<and> defined_part (snd p) = snd p) ps"
proof (induction ps)
  case Nil
  then show ?case by simp
next
  case (Cons p ps)
  show ?case
  proof (cases "snd p = JUndefined")
    case True
    have "defined_members ps \<noteq> p # ps"
      using defined_members_length[of ps] by (auto dest: arg_cong[where f = length])
    with True show ?thesis by simp
  next
    case False
    then show ?thesis
      using Cons.IH by (cases p) auto
  qed
qed

lemma defined_elements_same:
  "defined_elements vs = vs \<longleftrightarrow> list_all (\<lambda>v. defined_part v = v) vs"
  by (induction vs) auto

lemma field_same [simp]:
  "stringValue x \<noteq> JUndefined \<and> defined_part (stringValue x) = stringValue x \<longleftrightarrow> x \<noteq> Undefined"
  "nullableValue y \<noteq> JUndefined \<and> defined_part (nullableValue y) = nullableValue y \<longleftrightarrow> y \<noteq> Undefined"
  "boolValue b \<noteq> JUndefined \<and> defined_part (boolValue b) = boolValue b \<longleftrightarrow> b \<noteq> Undefined"
  "recurrenceValue r \<noteq> JUndefined \<and> defined_part (recurrenceValue r) = recurrenceValue r
     \<longleftrightarrow> r \<noteq> Undefined"
  by (simp_all add: stringValue_def nullableValue_def boolValue_def recurrenceValue_def
      split: optional.splits option.splits)

lemma taskValue_same: "defined_part (taskValue t) = taskValue t \<longleftrightarrow> definedTask t"
  unfolding taskValue_def defined_part.simps json.inject defined_members_same definedTask_def
  by simp

lemma historyValue_same:
  "defined_part (historyValue hi) = historyValue hi \<longleftrightarrow> h_title hi \<noteq> Undefined"
  unfolding historyValue_def defined_part.simps json.inject defined_members_same
  by simp

lemma stateValue_same: "defined_part (stateValue s) = stateValue s \<longleftrightarrow> allDefined s"
  unfolding stateValue_def defined_part.simps json.inject defined_members_same
  by (simp add: defined_elements_same list_all_iff taskValue_same historyValue_same allDefined_def
      defined_members_same)

lemma spread_defined: "definedTask t \<Longrightarrow> definedPatch p \<Longrightarrow> definedTask (spread t p)"
  by (auto simp: definedTask_def definedPatch_def spread_def split: option.splits)

lemma editTask_defined:
  assumes "allDefined s" "definedPatch p"
  shows "allDefined (editTask i p s)"
  using assms by (auto simp: allDefined_def editTask_def list_all_iff spread_defined)

lemma definedTask_update [simp]:
  "definedTask x \<Longrightarrow> definedTask (x\<lparr>completed := Defined c\<rparr>)"
  "definedTask x \<Longrightarrow> definedTask (x\<lparr>nextDue := Defined n\<rparr>)"
  by (simp_all add: definedTask_def)

lemma list_all_map_if:
  "list_all P xs \<Longrightarrow> (\<And>x. P x \<Longrightarrow> P (f x)) \<Longrightarrow> list_all P (map (\<lambda>x. if c x then f x else x) xs)"
  by (induction xs) simp_all

lemma completeNow_defined:
  assumes "allDefined s" "completeNow h uuid clock i s = Inr s'"
  shows "allDefined s'"
proof (cases "find (\<lambda>x. t_id x = Defined i) (tasks s)")
  case None
  with assms show ?thesis
    by (simp add: completeNow_def)
next
  case (Some t)
  then have "t \<in> set (tasks s)"
    by (auto simp: find_Some_iff)
  with assms(1) have ttl: "title t \<noteq> Undefined"
    by (auto simp: allDefined_def list_all_iff definedTask_def)
  from assms(1) have ts: "list_all definedTask (tasks s)"
    and hs: "list_all (\<lambda>hi. h_title hi \<noteq> Undefined) (history s)"
    by (simp_all add: allDefined_def)
  have 1: "list_all definedTask
             (map (\<lambda>x. if t_id x = Defined i then x\<lparr>completed := Defined True\<rparr> else x) (tasks s))"
    by (rule list_all_map_if[OF ts]) simp
  have 2: "list_all definedTask
             (map (\<lambda>x. if t_id x = Defined i
                        then x\<lparr>nextDue := Defined (Some nxt), completed := Defined False\<rparr> else x)
                  (map (\<lambda>x. if t_id x = Defined i then x\<lparr>completed := Defined True\<rparr> else x)
                       (tasks s)))" for nxt
    by (rule list_all_map_if[OF 1]) simp
  show ?thesis
  proof (cases "recurringRule t")
    case None
    with assms(2) Some have "s' = s\<lparr>tasks := map (\<lambda>x. if t_id x = Defined i
                                                      then x\<lparr>completed := Defined True\<rparr> else x)
                                               (tasks s),
                                    history := \<lparr>h_id = uuid, taskId = i, h_title = title t,
                                                 at = nowISO clock\<rparr> # history s\<rparr>"
      by (simp add: completeNow_def Let_def)
    then show ?thesis
      using 1 hs ttl by (simp add: allDefined_def)
  next
    case (Some r)
    with assms(2) \<open>find (\<lambda>x. t_id x = Defined i) (tasks s) = Some t\<close>
    obtain nxt where "s' = s\<lparr>tasks := map (\<lambda>x. if t_id x = Defined i
                                 then x\<lparr>nextDue := Defined (Some nxt), completed := Defined False\<rparr>
                                 else x)
                            (map (\<lambda>x. if t_id x = Defined i then x\<lparr>completed := Defined True\<rparr>
                                       else x) (tasks s)),
                              history := \<lparr>h_id = uuid, taskId = i, h_title = title t,
                                           at = nowISO clock\<rparr> # history s\<rparr>"
      by (auto simp: completeNow_def Let_def split: sum.splits)
    then show ?thesis
      using 2[of nxt] hs ttl by (simp add: allDefined_def)
  qed
qed

lemma mutate_defined:
  assumes "allDefined s" "mutate h m s = Inr s'"
    and "case m of EditTask i p \<Rightarrow> definedPatch p | _ \<Rightarrow> True"
  shows "allDefined s'"
proof (cases m)
  case (AddTask uuid clock ttl nts du rec)
  with assms show ?thesis
    by (auto simp: addTask_def allDefined_def definedTask_def)
next
  case (EditTask i p)
  with assms show ?thesis
    by (auto simp: editTask_defined)
next
  case (ToggleComplete i)
  with assms show ?thesis
    by (auto simp: toggleComplete_def allDefined_def list_all_iff definedTask_def)
next
  case (CompleteNow uuid clock i)
  with assms show ?thesis
    by (auto simp: completeNow_defined)
next
  case (DeleteTask i)
  with assms show ?thesis
    by (auto simp: deleteTask_def allDefined_def list_all_iff)
next
  case (ArchiveTask i)
  have "definedPatch (noPatch\<lparr>p_archived := Some (Defined True)\<rparr>)"
    by (simp add: definedPatch_def noPatch_def)
  with ArchiveTask assms show ?thesis
    by (auto simp: archiveTask_def editTask_defined)
qed

text \<open>
  C8, amended. \<open>saveState\<close> stores the text of the state unless the storage refuses
  it. \<open>JSON.parse\<close> reads that text as the state without the properties that hold
  \<open>undefined\<close>, and this is what \<open>loadState\<close> returns after a successful \<open>saveState\<close>. It is
  the state itself exactly when no field of a task and no title in the history is
  \<open>undefined\<close>. That holds on a first run, and every mutation preserves it, unless it is
  an \<open>editTask\<close> whose patch holds \<open>undefined\<close> under some key.
\<close>

theorem saved_state_roundtrip:
  "saveState h s st =
     (if storageAccepts h STORAGE_KEY (stringify (stateValue s))
      then Inr (st(STORAGE_KEY \<mapsto> stringify (stateValue s))) else Inl QuotaExceededError)
   \<and> JSON_parse (stringify (stateValue s)) = Some (defined_part (stateValue s))
   \<and> (\<forall>st'. saveState h s st = Inr st' \<longrightarrow> loadState st' = defined_part (stateValue s))
   \<and> (defined_part (stateValue s) = stateValue s \<longleftrightarrow> allDefined s)
   \<and> allDefined (freshState tz)
   \<and> (\<forall>m s'. allDefined s \<and> mutate h m s = Inr s'
               \<and> (case m of EditTask i p \<Rightarrow> definedPatch p | _ \<Rightarrow> True) \<longrightarrow> allDefined s')"
proof -
  have 1: "saveState h s st =
     (if storageAccepts h STORAGE_KEY (stringify (stateValue s))
      then Inr (st(STORAGE_KEY \<mapsto> stringify (stateValue s))) else Inl QuotaExceededError)"
    by (simp add: saveState_def setItem_def stateValue_text Let_def)
  have 3: "\<forall>st'. saveState h s st = Inr st' \<longrightarrow> loadState st' = defined_part (stateValue s)"
    by (simp add: saveState_loadState)
  have 5: "allDefined (freshState tz)"
    by (simp add: allDefined_def freshState_def)
  have 6: "\<forall>m s'. allDefined s \<and> mutate h m s = Inr s'
               \<and> (case m of EditTask i p \<Rightarrow> definedPatch p | _ \<Rightarrow> True) \<longrightarrow> allDefined s'"
    using mutate_defined by blast
  from 1 stateValue_roundtrip[of s] 3 stateValue_same[of s] 5 6 show ?thesis
    by (intro conjI)
qed

theorem saved_state_roundtrip_witness:
  "saveState utcHost exampleState Map.empty
     = Inr [STORAGE_KEY \<mapsto> stringify (stateValue exampleState)]
   \<and> loadState [STORAGE_KEY \<mapsto> stringify (stateValue exampleState)] = stateValue exampleState
   \<and> allDefined exampleState
   \<and> mutate utcHost (ToggleComplete (js ''a1'')) exampleState
       = Inr (exampleState\<lparr>tasks := [buyMilk\<lparr>completed := Defined True\<rparr>, payRent, oldTask]\<rparr>)
   \<and> allDefined (exampleState\<lparr>tasks := [buyMilk\<lparr>completed := Defined True\<rparr>, payRent, oldTask]\<rparr>)"
proof -
  note th = saved_state_roundtrip[of utcHost exampleState Map.empty "js ''UTC''"]
  have ok: "storageAccepts utcHost STORAGE_KEY (stringify (stateValue exampleState))"
    by (simp add: utcHost_def)
  have d: "allDefined exampleState"
    by (simp add: allDefined_def definedTask_def example_defs)
  have run: "mutate utcHost (ToggleComplete (js ''a1'')) exampleState
       = Inr (exampleState\<lparr>tasks := [buyMilk\<lparr>completed := Defined True\<rparr>, payRent, oldTask]\<rparr>)"
    by (simp add: toggleComplete_def truthy_def example_defs)
  from th ok have save: "saveState utcHost exampleState Map.empty
     = Inr [STORAGE_KEY \<mapsto> stringify (stateValue exampleState)]"
    by simp
  from th save have "loadState [STORAGE_KEY \<mapsto> stringify (stateValue exampleState)]
                       = defined_part (stateValue exampleState)"
    by blast
  moreover from th d have "defined_part (stateValue exampleState) = stateValue exampleState"
    by blast
  moreover have c: "case ToggleComplete (js ''a1'') of EditTask i p \<Rightarrow> definedPatch p | _ \<Rightarrow> True"
    by simp
  note inv = th[THEN conjunct2, THEN conjunct2, THEN conjunct2, THEN conjunct2, THEN conjunct2,
      rule_format, OF conjI[OF d conjI[OF run c]]]
  note inv
  ultimately show ?thesis
    using save d run by simp
qed

lemma withoutNotes_tasks:
  "withoutNotes =
     \<lparr>tasks = [\<lparr>t_id = Defined (js ''a1''), title = Defined (js ''Buy milk''), t_notes = Undefined,
                 createdAt = Defined (js ''2026-11-03T04:00:00.000Z''), due = Defined None,
                 recurrence = Defined none, completed = Defined False, nextDue = Defined None,
                 archived = Defined False\<rparr>],
      history = [], settings = \<lparr>timezone = js ''Asia/Dhaka''\<rparr>\<rparr>"
  unfolding withoutNotes_def addTask_def nowISO_def nov3_iso
  by (simp add: editTask_def spread_def noPatch_def freshState_def orString_def orNull_def js_def)

text \<open>
  C8, as the code has it. \<open>withoutNotes\<close> is reached from a first run by \<open>addTask\<close> and
  \<open>editTask(id, {notes: undefined})\<close>. Its task has the property \<open>notes\<close>, holding
  \<open>undefined\<close>; \<open>JSON.stringify\<close> leaves the property out, and the task that
  \<open>loadState\<close> returns has no such property.
\<close>

theorem notes_lost_in_storage:
  "reachable dhakaHost withoutNotes
   \<and> stateValue withoutNotes =
       JObject [(js ''tasks'',
                 JArray [JObject [(js ''id'', JString (js ''a1'')),
                                  (js ''title'', JString (js ''Buy milk'')),
                                  (js ''notes'', JUndefined),
                                  (js ''createdAt'', JString (js ''2026-11-03T04:00:00.000Z'')),
                                  (js ''due'', JNull), (js ''recurrence'', JString (js ''none'')),
                                  (js ''completed'', JBool False), (js ''nextDue'', JNull),
                                  (js ''archived'', JBool False)]]),
                (js ''history'', JArray []),
                (js ''settings'', JObject [(js ''timezone'', JString (js ''Asia/Dhaka''))])]
   \<and> saveState dhakaHost withoutNotes Map.empty
       = Inr [STORAGE_KEY \<mapsto> stringify (stateValue withoutNotes)]
   \<and> loadState [STORAGE_KEY \<mapsto> stringify (stateValue withoutNotes)] =
       JObject [(js ''tasks'',
                 JArray [JObject [(js ''id'', JString (js ''a1'')),
                                  (js ''title'', JString (js ''Buy milk'')),
                                  (js ''createdAt'', JString (js ''2026-11-03T04:00:00.000Z'')),
                                  (js ''due'', JNull), (js ''recurrence'', JString (js ''none'')),
                                  (js ''completed'', JBool False), (js ''nextDue'', JNull),
                                  (js ''archived'', JBool False)]]),
                (js ''history'', JArray []),
                (js ''settings'', JObject [(js ''timezone'', JString (js ''Asia/Dhaka''))])]
   \<and> loadState [STORAGE_KEY \<mapsto> stringify (stateValue withoutNotes)] \<noteq> stateValue withoutNotes"
proof -
  have r: "reachable dhakaHost withoutNotes"
  proof -
    have "reachable dhakaHost (freshState (js ''Asia/Dhaka''))"
      by (rule reachable.fresh)
    then have "reachable dhakaHost (addTask (js ''a1'') 1793678400000 (js ''Buy milk'') [] None none
                                      (freshState (js ''Asia/Dhaka'')))"
      by (rule reachable.step[where m = "AddTask (js ''a1'') 1793678400000 (js ''Buy milk'') [] None none"])
         simp
    then show ?thesis
      unfolding withoutNotes_def
      by (rule reachable.step[where m = "EditTask (js ''a1'') (noPatch\<lparr>p_notes := Some Undefined\<rparr>)"])
         simp
  qed
  have v: "stateValue withoutNotes =
       JObject [(js ''tasks'',
                 JArray [JObject [(js ''id'', JString (js ''a1'')),
                                  (js ''title'', JString (js ''Buy milk'')),
                                  (js ''notes'', JUndefined),
                                  (js ''createdAt'', JString (js ''2026-11-03T04:00:00.000Z'')),
                                  (js ''due'', JNull), (js ''recurrence'', JString (js ''none'')),
                                  (js ''completed'', JBool False), (js ''nextDue'', JNull),
                                  (js ''archived'', JBool False)]]),
                (js ''history'', JArray []),
                (js ''settings'', JObject [(js ''timezone'', JString (js ''Asia/Dhaka''))])]"
    unfolding withoutNotes_tasks
    by (simp add: stateValue_def taskValue_def stringValue_def nullableValue_def boolValue_def
        recurrenceValue_def recurrenceName_def)
  have ok: "storageAccepts dhakaHost STORAGE_KEY (stringify (stateValue withoutNotes))"
    by (simp add: dhakaHost_def)
  have save: "saveState dhakaHost withoutNotes Map.empty
       = Inr [STORAGE_KEY \<mapsto> stringify (stateValue withoutNotes)]"
    using ok by (simp add: saveState_def setItem_def stateValue_text Let_def)
  have "loadState [STORAGE_KEY \<mapsto> stringify (stateValue withoutNotes)]
          = defined_part (stateValue withoutNotes)"
    by (rule saveState_loadState[OF save])
  also have "\<dots> = JObject [(js ''tasks'',
                 JArray [JObject [(js ''id'', JString (js ''a1'')),
                                  (js ''title'', JString (js ''Buy milk'')),
                                  (js ''createdAt'', JString (js ''2026-11-03T04:00:00.000Z'')),
                                  (js ''due'', JNull), (js ''recurrence'', JString (js ''none'')),
                                  (js ''completed'', JBool False), (js ''nextDue'', JNull),
                                  (js ''archived'', JBool False)]]),
                (js ''history'', JArray []),
                (js ''settings'', JObject [(js ''timezone'', JString (js ''Asia/Dhaka''))])]"
    unfolding v by simp
  finally have l: "loadState [STORAGE_KEY \<mapsto> stringify (stateValue withoutNotes)] =
       JObject [(js ''tasks'',
                 JArray [JObject [(js ''id'', JString (js ''a1'')),
                                  (js ''title'', JString (js ''Buy milk'')),
                                  (js ''createdAt'', JString (js ''2026-11-03T04:00:00.000Z'')),
                                  (js ''due'', JNull), (js ''recurrence'', JString (js ''none'')),
                                  (js ''completed'', JBool False), (js ''nextDue'', JNull),
                                  (js ''archived'', JBool False)]]),
                (js ''history'', JArray []),
                (js ''settings'', JObject [(js ''timezone'', JString (js ''Asia/Dhaka''))])]" .
  have ne: "loadState [STORAGE_KEY \<mapsto> stringify (stateValue withoutNotes)] \<noteq> stateValue withoutNotes"
    by (subst l) (simp add: v)
  from r v save l ne show ?thesis
    by (intro conjI)
qed

end
